theory Spec2Isabelle
  imports Main "HOL-Library.Multiset"
begin

section \<open>Data model\<close>

text \<open>
  The operation resolver and phase dispatcher of \<^verbatim>\<open>tool/gravity/cli/operation.go\<close>.

  \<^verbatim>\<open>ops.SiteOperation.Type\<close> is a string compared against the constants of package
  \<^verbatim>\<open>ops\<close>. The six constants the switch statements name are distinct values; every
  other string is \<open>OperationOther\<close>.
\<close>

datatype operation_type =
    OperationInstall
  | OperationExpand
  | OperationUpdate
  | OperationUpdateRuntimeEnviron
  | OperationUpdateConfig
  | OperationGarbageCollect
  | OperationOther string

datatype operation_status = StatusActive | StatusCompleted | StatusFailed

text \<open>
  \<^verbatim>\<open>ops.SiteOperation\<close>: the fields this file reads. \<open>Created\<close> is a \<^verbatim>\<open>time.Time\<close>,
  here an instant counted in integer ticks.
\<close>

record SiteOperation =
  ID :: string
  Type :: operation_type
  Created :: int
  Status :: operation_status

text \<open>
  Modelled from the spec: the methods \<^verbatim>\<open>IsCompleted\<close> and \<^verbatim>\<open>IsFailed\<close> of
  \<^verbatim>\<open>ops.SiteOperation\<close> (package \<^verbatim>\<open>lib/ops\<close>) are missing. The spec's data model: the
  status is one of Completed, Failed, Active; an operation is active iff it is not
  completed, and failed is a terminal sub-state of completed.
\<close>

definition IsFailed :: "SiteOperation \<Rightarrow> bool" where
  "IsFailed op = (Status op = StatusFailed)"

definition IsCompleted :: "SiteOperation \<Rightarrow> bool" where
  "IsCompleted op = (Status op \<noteq> StatusActive)"

text \<open>\<^verbatim>\<open>time.Time.After\<close>: strictly later.\<close>

definition After :: "int \<Rightarrow> int \<Rightarrow> bool" where
  "After t u = (u < t)"

subsection \<open>Errors\<close>

text \<open>
  Errors of package \<^verbatim>\<open>trace\<close>. \<^verbatim>\<open>trace.NotFound(format, args...)\<close> and
  \<^verbatim>\<open>trace.BadParameter(format, args...)\<close> are kept with their format string and their
  arguments; \<^verbatim>\<open>trace.Wrap(err)\<close> and \<^verbatim>\<open>trace.Wrap(err, message)\<close> keep the wrapped
  error. \<open>OsNotExist\<close> is an error of the operating system for which \<^verbatim>\<open>os.IsNotExist\<close>
  holds (a file or directory that does not exist); \<open>OtherError\<close> is an error of any other
  kind (a backend or handler failure). A Go \<^verbatim>\<open>error\<close> that may be nil is an
  \<open>error option\<close>.
\<close>

datatype fmt_arg = ArgString string | ArgType operation_type

datatype error =
    NotFound string "fmt_arg list"
  | BadParameter string "fmt_arg list"
  | OsNotExist string
  | OtherError string
  | Wrap error
  | WrapMessage error string

text \<open>
  \<^verbatim>\<open>trace.IsNotFound\<close> unwraps the error; it holds of a \<^verbatim>\<open>trace.NotFound\<close> error and,
  for an error that is not one, when \<^verbatim>\<open>os.IsNotExist\<close> holds of it.
  \<^verbatim>\<open>trace.IsBadParameter\<close> unwraps the error and holds of a \<^verbatim>\<open>trace.BadParameter\<close>
  error.
\<close>

fun IsNotFound :: "error \<Rightarrow> bool" where
  "IsNotFound (NotFound _ _) = True"
| "IsNotFound (OsNotExist _) = True"
| "IsNotFound (Wrap e) = IsNotFound e"
| "IsNotFound (WrapMessage e _) = IsNotFound e"
| "IsNotFound _ = False"

fun IsBadParameter :: "error \<Rightarrow> bool" where
  "IsBadParameter (BadParameter _ _) = True"
| "IsBadParameter (Wrap e) = IsBadParameter e"
| "IsBadParameter (WrapMessage e _) = IsBadParameter e"
| "IsBadParameter _ = False"

text \<open>The error below all wrapping: what \<^verbatim>\<open>trace.Unwrap\<close> reaches.\<close>

fun Unwrap :: "error \<Rightarrow> error" where
  "Unwrap (Wrap e) = Unwrap e"
| "Unwrap (WrapMessage e _) = Unwrap e"
| "Unwrap e = e"

text \<open>\<^verbatim>\<open>trace.Wrap\<close> of an error that may be nil: nil stays nil.\<close>

definition WrapNil :: "error option \<Rightarrow> error option" where
  "WrapNil r = map_option Wrap r"

subsection \<open>Backends and environments\<close>

text \<open>
  The sources are external collaborators; each is the response it gives in the one
  resolution pass. \<^verbatim>\<open>storage.GetOperations(backend)\<close> and
  \<^verbatim>\<open>storage.GetLastOperation(backend)\<close> are the two reads of a \<^verbatim>\<open>storage.Backend\<close>.
\<close>

record Backend =
  GetOperations :: "error + SiteOperation list"
  GetLastOperation :: "error + SiteOperation"

text \<open>
  \<^verbatim>\<open>localenv.LocalEnvironment\<close>: its backend, and what its methods
  \<^verbatim>\<open>NewClusterEnvironment\<close> and \<^verbatim>\<open>NewLocalWizardEnvironment\<close> return (the backend of the
  environment created, or the error).
\<close>

record LocalEnvironment =
  Backend :: Backend
  NewClusterEnvironment :: "error + Backend"
  NewLocalWizardEnvironment :: "error + Backend"

type_synonym SiteKey = string

text \<open>
  \<^verbatim>\<open>ops.Operator\<close> of the remote (wizard) environment: \<^verbatim>\<open>GetLocalSite\<close> (the site is kept
  as its key) and \<^verbatim>\<open>ops.GetLastOperation(clusterKey, operator)\<close>.
\<close>

record Operator =
  GetLocalSite :: "error + SiteKey"
  OperatorGetLastOperation :: "SiteKey \<Rightarrow> error + SiteOperation"

record RemoteEnvironment =
  Operator :: "Operator option"

subsection \<open>What the process does not pass as arguments\<close>

text \<open>
  Three things the Go code takes from outside its arguments:
  \<^item> the order in which \<^verbatim>\<open>range\<close> visits the keys of the operations map, which Go leaves
    unspecified and randomises (\<open>range_order\<close>);
  \<^item> \<^verbatim>\<open>sort.Slice\<close>, which sorts by the given less function and is not stable
    (\<open>sort_Slice\<close>);
  \<^item> the package-level \<^verbatim>\<open>localenv.NewRemoteEnvironment()\<close>.
\<close>

record Ambient =
  range_order :: "string list"
  sort_Slice :: "(SiteOperation \<Rightarrow> SiteOperation \<Rightarrow> bool) \<Rightarrow> SiteOperation list \<Rightarrow> SiteOperation list"
  NewRemoteEnvironment :: "error + RemoteEnvironment"

text \<open>A \<^verbatim>\<open>range\<close> over a map visits every key once.\<close>

definition range_visits :: "string list \<Rightarrow> (string \<rightharpoonup> SiteOperation) \<Rightarrow> bool" where
  "range_visits ks m = (distinct ks \<and> set ks = dom m)"

text \<open>
  What \<^verbatim>\<open>sort.Slice\<close> guarantees on a slice: the result holds the same elements, and no
  later element is less than an earlier one.
\<close>

definition sorts :: "(('a \<Rightarrow> 'a \<Rightarrow> bool) \<Rightarrow> 'a list \<Rightarrow> 'a list) \<Rightarrow> ('a \<Rightarrow> 'a \<Rightarrow> bool) \<Rightarrow> 'a list \<Rightarrow> bool" where
  "sorts srt lt xs =
     (mset (srt lt xs) = mset xs \<and> sorted_wrt (\<lambda>a b. \<not> lt b a) (srt lt xs))"

text \<open>
  Insertion sort as package \<^verbatim>\<open>sort\<close> runs it on short slices: each element moves left
  while it is less than its left neighbour. \<open>insert_left\<close> works on the reversed prefix.
\<close>

fun insert_left :: "('a \<Rightarrow> 'a \<Rightarrow> bool) \<Rightarrow> 'a \<Rightarrow> 'a list \<Rightarrow> 'a list" where
  "insert_left lt x [] = [x]"
| "insert_left lt x (y # ys) =
     (if lt x y then y # insert_left lt x ys else x # y # ys)"

definition insertionSort :: "('a \<Rightarrow> 'a \<Rightarrow> bool) \<Rightarrow> 'a list \<Rightarrow> 'a list" where
  "insertionSort lt xs = rev (fold (insert_left lt) xs [])"

section \<open>The operation resolver\<close>

text \<open>
  The external reads of a resolution pass, in the order they are made. The Go struct
  \<^verbatim>\<open>backendOperations\<close> has the fields \<open>operations\<close> and \<open>clusterOperation\<close>; \<open>queried\<close>
  is a ghost field recording every external read.
\<close>

datatype query =
    QueryClusterEnvironment
  | QueryClusterOperations
  | QueryUpdateBackend
  | QueryJoinBackend
  | QueryRemoteEnvironment
  | QueryOperatorLocalSite
  | QueryOperatorLastOperation
  | QueryLocalWizardEnvironment
  | QueryLocalWizardBackend

record backendOperations =
  operations :: "string \<rightharpoonup> SiteOperation"
  clusterOperation :: "SiteOperation option"
  queried :: "query list"

definition newBackendOperations :: backendOperations where
  "newBackendOperations = \<lparr>operations = Map.empty, clusterOperation = None, queried = []\<rparr>"

definition note_query :: "query \<Rightarrow> backendOperations \<Rightarrow> backendOperations" where
  "note_query q r = r\<lparr>queried := queried r @ [q]\<rparr>"

text \<open>
  An \<^verbatim>\<open>operationGetter\<close> is a closure over one source; here the read it stands for and
  the source's response.
\<close>

type_synonym operationGetter = "query \<times> (error + SiteOperation)"

definition getOperationFromOperator :: "Operator \<Rightarrow> SiteKey \<Rightarrow> operationGetter" where
  "getOperationFromOperator operator clusterKey =
     (QueryOperatorLastOperation,
      case OperatorGetLastOperation operator clusterKey of
        Inl err \<Rightarrow> Inl (Wrap err)
      | Inr op \<Rightarrow> Inr op)"

definition getOperationFromBackend :: "query \<Rightarrow> Backend \<Rightarrow> operationGetter" where
  "getOperationFromBackend q backend =
     (q, case GetLastOperation backend of
           Inl err \<Rightarrow> Inl (Wrap err)
         | Inr op \<Rightarrow> Inr op)"

text \<open>
  \<^verbatim>\<open>getOperationAndUpdateCache\<close>: on success the operation overwrites the entry of its
  ID; on failure a warning is logged and the map is unchanged. Returns the operation
  (nil on failure) and the updated receiver.
\<close>

definition getOperationAndUpdateCache ::
  "backendOperations \<Rightarrow> operationGetter \<Rightarrow> SiteOperation option \<times> backendOperations" where
  "getOperationAndUpdateCache r getter =
     (case snd getter of
        Inr op \<Rightarrow>
          (Some op, (note_query (fst getter) r)\<lparr>operations := (operations r)(ID op \<mapsto> op)\<rparr>)
      | Inl err \<Rightarrow> (None, note_query (fst getter) r))"

text \<open>\<^verbatim>\<open>backendOperations.init\<close>.\<close>

definition backendOperations_init ::
  "backendOperations \<Rightarrow> Backend \<Rightarrow> error option \<times> backendOperations" where
  "backendOperations_init r clusterBackend =
     (let r' = note_query QueryClusterOperations r in
      case GetOperations clusterBackend of
        Inl err \<Rightarrow> (Some (WrapMessage err ''failed to query cluster operations''), r')
      | Inr clusterOperations \<Rightarrow>
          (case clusterOperations of
             [] \<Rightarrow> (None, r')
           | first # _ \<Rightarrow>
               (let m = fold (\<lambda>op m. m(ID op \<mapsto> op)) clusterOperations (operations r')
                in (None, r'\<lparr>operations := m(ID first \<mapsto> first),
                              clusterOperation := Some first\<rparr>))))"

definition isActiveInstallOperation :: "backendOperations \<Rightarrow> bool" where
  "isActiveInstallOperation r =
     (case clusterOperation r of
        None \<Rightarrow> True
      | Some op \<Rightarrow> Type op = OperationInstall)"

text \<open>
  The tail of \<^verbatim>\<open>backendOperations.List\<close> that every failure to reach the wizard falls
  through to: the local wizard environment.
\<close>

definition List_localWizard ::
  "backendOperations \<Rightarrow> LocalEnvironment \<Rightarrow> error option \<times> backendOperations" where
  "List_localWizard r localEnv =
     (let r' = note_query QueryLocalWizardEnvironment r in
      case NewLocalWizardEnvironment localEnv of
        Inl err \<Rightarrow> (Some (WrapMessage err ''failed to read local wizard environment''), r')
      | Inr wizardBackend \<Rightarrow>
          (None, snd (getOperationAndUpdateCache r'
                        (getOperationFromBackend QueryLocalWizardBackend wizardBackend))))"

text \<open>The part of \<^verbatim>\<open>backendOperations.List\<close> guarded by \<^verbatim>\<open>isActiveInstallOperation\<close>.\<close>

definition List_install ::
  "Ambient \<Rightarrow> backendOperations \<Rightarrow> LocalEnvironment \<Rightarrow> error option \<times> backendOperations" where
  "List_install amb r localEnv =
     (let r' = note_query QueryRemoteEnvironment r in
      case NewRemoteEnvironment amb of
        Inl err \<Rightarrow> List_localWizard r' localEnv
      | Inr wizardEnv \<Rightarrow>
          (case Operator wizardEnv of
             None \<Rightarrow> List_localWizard r' localEnv
           | Some operator \<Rightarrow>
               (let r'' = note_query QueryOperatorLocalSite r' in
                case GetLocalSite operator of
                  Inl err \<Rightarrow> List_localWizard r'' localEnv
                | Inr clusterKey \<Rightarrow>
                    (None, snd (getOperationAndUpdateCache r''
                                  (getOperationFromOperator operator clusterKey))))))"

text \<open>
  The first three steps of \<^verbatim>\<open>backendOperations.List\<close>: the cluster backend, the update
  environment and the join environment. The errors of these steps are logged only.
\<close>

definition List_cluster :: "backendOperations \<Rightarrow> LocalEnvironment \<Rightarrow> backendOperations" where
  "List_cluster r localEnv =
     (let r' = note_query QueryClusterEnvironment r in
      case NewClusterEnvironment localEnv of
        Inl err \<Rightarrow> r'
      | Inr clusterBackend \<Rightarrow> snd (backendOperations_init r' clusterBackend))"

definition List_environment ::
  "query \<Rightarrow> backendOperations \<Rightarrow> LocalEnvironment option \<Rightarrow> backendOperations" where
  "List_environment q r env =
     (case env of
        None \<Rightarrow> r
      | Some e \<Rightarrow> snd (getOperationAndUpdateCache r (getOperationFromBackend q (Backend e))))"

definition backendOperations_List ::
  "Ambient \<Rightarrow> backendOperations \<Rightarrow> LocalEnvironment \<Rightarrow> LocalEnvironment option \<Rightarrow>
   LocalEnvironment option \<Rightarrow> error option \<times> backendOperations" where
  "backendOperations_List amb r localEnv updateEnv joinEnv =
     (let r1 = List_cluster r localEnv;
          r2 = List_environment QueryUpdateBackend r1 updateEnv;
          r3 = List_environment QueryJoinBackend r2 joinEnv
      in if isActiveInstallOperation r3 then List_install amb r3 localEnv
         else (None, r3))"

text \<open>
  \<^verbatim>\<open>getBackendOperations\<close>: the values of the merged map, in the order \<^verbatim>\<open>range\<close> visits
  them, filtered by ID, then sorted with \<^verbatim>\<open>sort.Slice\<close> by \<^verbatim>\<open>Created.After\<close>.
\<close>

definition created_after :: "SiteOperation \<Rightarrow> SiteOperation \<Rightarrow> bool" where
  "created_after a b = After (Created a) (Created b)"

definition range_values :: "Ambient \<Rightarrow> (string \<rightharpoonup> SiteOperation) \<Rightarrow> SiteOperation list" where
  "range_values amb m = List.map_filter m (range_order amb)"

definition getBackendOperations ::
  "Ambient \<Rightarrow> LocalEnvironment \<Rightarrow> LocalEnvironment option \<Rightarrow> LocalEnvironment option \<Rightarrow>
   string \<Rightarrow> error + SiteOperation list" where
  "getBackendOperations amb localEnv updateEnv joinEnv operationID =
     (case backendOperations_List amb newBackendOperations localEnv updateEnv joinEnv of
        (Some err, b) \<Rightarrow> Inl (Wrap err)
      | (None, b) \<Rightarrow>
          (let result = filter (\<lambda>op. operationID = [] \<or> operationID = ID op)
                          (range_values amb (operations b))
           in Inr (sort_Slice amb created_after result)))"

fun getActiveOperationFromList :: "SiteOperation list \<Rightarrow> error + SiteOperation" where
  "getActiveOperationFromList [] = Inl (NotFound ''no active operations found'' [])"
| "getActiveOperationFromList (op # rest) =
     (if \<not> IsCompleted op then Inr op else getActiveOperationFromList rest)"

definition isActiveOperation :: "SiteOperation \<Rightarrow> bool" where
  "isActiveOperation op = (IsFailed op \<or> \<not> IsCompleted op)"

definition getActiveOperation ::
  "Ambient \<Rightarrow> LocalEnvironment \<Rightarrow> LocalEnvironment option \<Rightarrow> LocalEnvironment option \<Rightarrow>
   string \<Rightarrow> error + SiteOperation" where
  "getActiveOperation amb localEnv updateEnv joinEnv operationID =
     (case getBackendOperations amb localEnv updateEnv joinEnv operationID of
        Inl err \<Rightarrow> Inl (Wrap err)
      | Inr result \<Rightarrow>
          (if length result = 0 then
             (if operationID \<noteq> [] then
                Inl (NotFound ''no operation with ID %v found'' [ArgString operationID])
              else Inl (NotFound ''no operation found'' []))
           else (case getActiveOperationFromList result of
                   Inl err \<Rightarrow> Inl (Wrap err)
                 | Inr op \<Rightarrow> Inr op)))"

text \<open>
  \<^verbatim>\<open>getLastOperation\<close>, with what its own statements log, in order: the level
  (\<^verbatim>\<open>log.Debug\<close>, \<^verbatim>\<open>log.Infof\<close>; \<^verbatim>\<open>Warn\<close> is the level of a warning), the message and
  the operations printed with it.
\<close>

datatype log_entry =
    Debug string "SiteOperation list"
  | Info string "SiteOperation list"
  | Warn string "SiteOperation list"

fun is_warning :: "log_entry \<Rightarrow> bool" where
  "is_warning (Warn _ _) = True"
| "is_warning _ = False"

definition multiple_operations_message :: string where
  "multiple_operations_message =
     ''Multiple operations found: '' @ [CHR 0x0A] @ ''%v'' @ [CHR 0x0A] @
     '', please specify operation with --operation-id.'' @ [CHR 0x0A] @
     ''Displaying the most recent operation.''"

definition getLastOperation ::
  "Ambient \<Rightarrow> LocalEnvironment \<Rightarrow> LocalEnvironment option \<Rightarrow> LocalEnvironment option \<Rightarrow>
   string \<Rightarrow> (error + SiteOperation) \<times> log_entry list" where
  "getLastOperation amb localEnv updateEnv joinEnv operationID =
     (case getBackendOperations amb localEnv updateEnv joinEnv operationID of
        Inl err \<Rightarrow> (Inl (Wrap err), [])
      | Inr result \<Rightarrow>
          (let fetched = Debug ''Fetched backend operations.'' result in
           case result of
             [] \<Rightarrow>
               (if operationID \<noteq> [] then
                  (Inl (NotFound ''no operation with ID %v found'' [ArgString operationID]),
                   [fetched])
                else (Inl (NotFound ''no operation found'' []), [fetched]))
           | first # rest \<Rightarrow>
               (if length result = 1 \<and> operationID \<noteq> [] then
                  (Inr first, [fetched, Debug ''Fetched operation by ID.'' [first]])
                else if length result \<noteq> 1 then
                  (Inr first, [fetched, Info multiple_operations_message result])
                else (Inr first, [fetched]))))"

section \<open>The phase dispatcher\<close>

text \<open>
  An \<^verbatim>\<open>Installer\<close> is the built-in \<^verbatim>\<open>defaultInstaller\<close> or an implementation the caller
  injects, identified by a value of type \<open>'i\<close>.
\<close>

datatype 'i Installer = defaultInstaller | injectedInstaller 'i

record 'i PhaseParams =
  PhaseID :: string
  OperationID :: string
  Force :: bool
  Timeout :: int
  SkipVersionCheck :: bool
  Installer :: "'i Installer option"

text \<open>
  The code of the package that is outside this file: the constant \<^verbatim>\<open>fsm.RootPhase\<close>, the
  type-specific phase handlers and plan completers, \<^verbatim>\<open>startInstall\<close> (applied to the
  default install configuration), and the three methods of an injected installer.
  A handler acts on the world \<open>'w\<close> (the cluster, the disks, the network) and returns an
  error or nil.
\<close>

type_synonym 'w action = "'w \<Rightarrow> error option \<times> 'w"

record ('i, 'w) Externals =
  RootPhase :: string
  executeInstallPhase :: "LocalEnvironment \<Rightarrow> 'i PhaseParams \<Rightarrow> SiteOperation \<Rightarrow> 'w action"
  rollbackInstallPhase :: "LocalEnvironment \<Rightarrow> 'i PhaseParams \<Rightarrow> SiteOperation \<Rightarrow> 'w action"
  startInstall :: "LocalEnvironment \<Rightarrow> 'w action"
  executeJoinPhase ::
    "LocalEnvironment \<Rightarrow> LocalEnvironment option \<Rightarrow> 'i PhaseParams \<Rightarrow> SiteOperation \<Rightarrow> 'w action"
  rollbackJoinPhase ::
    "LocalEnvironment \<Rightarrow> LocalEnvironment option \<Rightarrow> 'i PhaseParams \<Rightarrow> SiteOperation \<Rightarrow> 'w action"
  executeUpdatePhase ::
    "LocalEnvironment \<Rightarrow> LocalEnvironment option \<Rightarrow> 'i PhaseParams \<Rightarrow> SiteOperation \<Rightarrow> 'w action"
  rollbackUpdatePhase ::
    "LocalEnvironment \<Rightarrow> LocalEnvironment option \<Rightarrow> 'i PhaseParams \<Rightarrow> SiteOperation \<Rightarrow> 'w action"
  executeEnvironPhase ::
    "LocalEnvironment \<Rightarrow> LocalEnvironment option \<Rightarrow> 'i PhaseParams \<Rightarrow> SiteOperation \<Rightarrow> 'w action"
  rollbackEnvironPhase ::
    "LocalEnvironment \<Rightarrow> LocalEnvironment option \<Rightarrow> 'i PhaseParams \<Rightarrow> SiteOperation \<Rightarrow> 'w action"
  executeConfigPhase ::
    "LocalEnvironment \<Rightarrow> LocalEnvironment option \<Rightarrow> 'i PhaseParams \<Rightarrow> SiteOperation \<Rightarrow> 'w action"
  rollbackConfigPhase ::
    "LocalEnvironment \<Rightarrow> LocalEnvironment option \<Rightarrow> 'i PhaseParams \<Rightarrow> SiteOperation \<Rightarrow> 'w action"
  executeGarbageCollectPhase ::
    "LocalEnvironment \<Rightarrow> 'i PhaseParams \<Rightarrow> SiteOperation \<Rightarrow> 'w action"
  completeInstallPlan :: "LocalEnvironment \<Rightarrow> SiteOperation \<Rightarrow> 'w action"
  completeJoinPlan :: "LocalEnvironment \<Rightarrow> LocalEnvironment option \<Rightarrow> SiteOperation \<Rightarrow> 'w action"
  completeUpdatePlan :: "LocalEnvironment \<Rightarrow> LocalEnvironment option \<Rightarrow> SiteOperation \<Rightarrow> 'w action"
  completeEnvironPlan :: "LocalEnvironment \<Rightarrow> LocalEnvironment option \<Rightarrow> SiteOperation \<Rightarrow> 'w action"
  completeConfigPlan :: "LocalEnvironment \<Rightarrow> LocalEnvironment option \<Rightarrow> SiteOperation \<Rightarrow> 'w action"
  injectedExecutePhase ::
    "'i \<Rightarrow> LocalEnvironment \<Rightarrow> 'i PhaseParams \<Rightarrow> SiteOperation \<Rightarrow> 'w action"
  injectedRollbackPhase ::
    "'i \<Rightarrow> LocalEnvironment \<Rightarrow> 'i PhaseParams \<Rightarrow> SiteOperation \<Rightarrow> 'w action"
  injectedRestart :: "'i \<Rightarrow> LocalEnvironment \<Rightarrow> 'w action"

text \<open>\<^verbatim>\<open>return trace.Wrap(f(...))\<close>: the action's error, wrapped.\<close>

definition wrapped :: "'w action \<Rightarrow> 'w action" where
  "wrapped f w = (case f w of (err, w') \<Rightarrow> (WrapNil err, w'))"

text \<open>
  The methods of the interface \<^verbatim>\<open>Installer\<close>: those of \<^verbatim>\<open>defaultInstaller\<close> as this file
  defines them, those of an injected installer as the caller does.
\<close>

definition Installer_ExecutePhase ::
  "('i, 'w) Externals \<Rightarrow> 'i Installer \<Rightarrow> LocalEnvironment \<Rightarrow> 'i PhaseParams \<Rightarrow>
   SiteOperation \<Rightarrow> 'w action" where
  "Installer_ExecutePhase X installer localEnv p operation =
     (case installer of
        defaultInstaller \<Rightarrow> wrapped (executeInstallPhase X localEnv p operation)
      | injectedInstaller i \<Rightarrow> injectedExecutePhase X i localEnv p operation)"

definition Installer_RollbackPhase ::
  "('i, 'w) Externals \<Rightarrow> 'i Installer \<Rightarrow> LocalEnvironment \<Rightarrow> 'i PhaseParams \<Rightarrow>
   SiteOperation \<Rightarrow> 'w action" where
  "Installer_RollbackPhase X installer localEnv p operation =
     (case installer of
        defaultInstaller \<Rightarrow> wrapped (rollbackInstallPhase X localEnv p operation)
      | injectedInstaller i \<Rightarrow> injectedRollbackPhase X i localEnv p operation)"

definition Installer_Restart ::
  "('i, 'w) Externals \<Rightarrow> 'i Installer \<Rightarrow> LocalEnvironment \<Rightarrow> 'w action" where
  "Installer_Restart X installer localEnv =
     (case installer of
        defaultInstaller \<Rightarrow> wrapped (startInstall X localEnv)
      | injectedInstaller i \<Rightarrow> injectedRestart X i localEnv)"

definition ExecutePhase ::
  "('i, 'w) Externals \<Rightarrow> Ambient \<Rightarrow> LocalEnvironment \<Rightarrow> LocalEnvironment option \<Rightarrow>
   LocalEnvironment option \<Rightarrow> 'i PhaseParams \<Rightarrow> 'w action" where
  "ExecutePhase X amb localEnv updateEnv joinEnv params w =
     (case getActiveOperation amb localEnv updateEnv joinEnv (OperationID params) of
        Inl err \<Rightarrow> (Some (Wrap err), w)
      | Inr op \<Rightarrow>
          (case Type op of
             OperationInstall \<Rightarrow>
               (let installer = (case Installer params of
                                   None \<Rightarrow> defaultInstaller
                                 | Some i \<Rightarrow> i)
                in Installer_ExecutePhase X installer localEnv params op w)
           | OperationExpand \<Rightarrow> executeJoinPhase X localEnv joinEnv params op w
           | OperationUpdate \<Rightarrow> executeUpdatePhase X localEnv updateEnv params op w
           | OperationUpdateRuntimeEnviron \<Rightarrow> executeEnvironPhase X localEnv updateEnv params op w
           | OperationUpdateConfig \<Rightarrow> executeConfigPhase X localEnv updateEnv params op w
           | OperationGarbageCollect \<Rightarrow> executeGarbageCollectPhase X localEnv params op w
           | OperationOther t \<Rightarrow>
               (Some (BadParameter ''operation type %q does not support plan execution''
                        [ArgType (Type op)]), w)))"

definition RollbackPhase ::
  "('i, 'w) Externals \<Rightarrow> Ambient \<Rightarrow> LocalEnvironment \<Rightarrow> LocalEnvironment option \<Rightarrow>
   LocalEnvironment option \<Rightarrow> 'i PhaseParams \<Rightarrow> 'w action" where
  "RollbackPhase X amb localEnv updateEnv joinEnv params w =
     (case getActiveOperation amb localEnv updateEnv joinEnv (OperationID params) of
        Inl err \<Rightarrow> (Some (Wrap err), w)
      | Inr op \<Rightarrow>
          (case Type op of
             OperationInstall \<Rightarrow>
               (let installer = (case Installer params of
                                   None \<Rightarrow> defaultInstaller
                                 | Some i \<Rightarrow> i)
                in Installer_RollbackPhase X installer localEnv params op w)
           | OperationExpand \<Rightarrow> rollbackJoinPhase X localEnv joinEnv params op w
           | OperationUpdate \<Rightarrow> rollbackUpdatePhase X localEnv updateEnv params op w
           | OperationUpdateRuntimeEnviron \<Rightarrow> rollbackEnvironPhase X localEnv updateEnv params op w
           | OperationUpdateConfig \<Rightarrow> rollbackConfigPhase X localEnv updateEnv params op w
           | _ \<Rightarrow>
               (Some (BadParameter ''operation type %q does not support plan rollback''
                        [ArgType (Type op)]), w)))"

definition completeOperationPlan ::
  "('i, 'w) Externals \<Rightarrow> Ambient \<Rightarrow> LocalEnvironment \<Rightarrow> LocalEnvironment option \<Rightarrow>
   LocalEnvironment option \<Rightarrow> string \<Rightarrow> 'w action" where
  "completeOperationPlan X amb localEnv updateEnv joinEnv operationID w =
     (case getActiveOperation amb localEnv updateEnv joinEnv operationID of
        Inl err \<Rightarrow> (Some (Wrap err), w)
      | Inr op \<Rightarrow>
          (case Type op of
             OperationInstall \<Rightarrow> completeInstallPlan X localEnv op w
           | OperationExpand \<Rightarrow> completeJoinPlan X localEnv joinEnv op w
           | OperationUpdate \<Rightarrow> completeUpdatePlan X localEnv updateEnv op w
           | OperationUpdateRuntimeEnviron \<Rightarrow> completeEnvironPlan X localEnv updateEnv op w
           | OperationUpdateConfig \<Rightarrow> completeConfigPlan X localEnv updateEnv op w
           | _ \<Rightarrow>
               (Some (BadParameter ''operation type %q does not support plan completion''
                        [ArgType (Type op)]), w)))"

section \<open>The install resumption coordinator\<close>

definition ResumeOperation ::
  "('i, 'w) Externals \<Rightarrow> Ambient \<Rightarrow> LocalEnvironment \<Rightarrow> LocalEnvironment option \<Rightarrow>
   LocalEnvironment option \<Rightarrow> 'i PhaseParams \<Rightarrow> 'w action" where
  "ResumeOperation X amb localEnv updateEnv joinEnv params w =
     (let installer = (case Installer params of
                         None \<Rightarrow> defaultInstaller
                       | Some i \<Rightarrow> i);
          params' = params\<lparr>Installer := Some installer, PhaseID := RootPhase X\<rparr>
      in case ExecutePhase X amb localEnv updateEnv joinEnv params' w of
           (None, w') \<Rightarrow> (None, w')
         | (Some err, w') \<Rightarrow>
             (if \<not> IsNotFound err then (Some (Wrap err), w')
              else wrapped (Installer_Restart X installer localEnv) w'))"

section \<open>Vocabulary of the properties\<close>

text \<open>
  What the Go runtime guarantees in a pass that ended with the receiver \<open>b\<close>: the
  \<^verbatim>\<open>range\<close> visits every key of the merged map once, and \<^verbatim>\<open>sort.Slice\<close> sorts the
  filtered slice.
\<close>

definition go_ok :: "Ambient \<Rightarrow> backendOperations \<Rightarrow> string \<Rightarrow> bool" where
  "go_ok amb b operationID =
     (range_visits (range_order amb) (operations b) \<and>
      sorts (sort_Slice amb) created_after
        (filter (\<lambda>op. operationID = [] \<or> operationID = ID op)
           (range_values amb (operations b))))"

text \<open>The ID-filtered operation set: the operations of the merged map that pass the filter.\<close>

definition candidates :: "backendOperations \<Rightarrow> string \<Rightarrow> SiteOperation set" where
  "candidates b operationID =
     {op \<in> ran (operations b). operationID = [] \<or> operationID = ID op}"

text \<open>
  The spec's merge order as data. Each source contributes the operations it returned (none
  when it failed or was not supplied); the resolver merges them in the order cluster
  backend, update environment, join environment, install sources.

  \<open>cluster_result\<close> is what the cluster backend returned, \<open>cluster_pointer\<close> the Cluster
  Operation Pointer (its first operation). \<open>cluster_part\<close> is what the cluster step inserts:
  every operation of the cluster backend, and the pointer once more.
\<close>

definition cluster_result :: "LocalEnvironment \<Rightarrow> SiteOperation list" where
  "cluster_result localEnv =
     (case NewClusterEnvironment localEnv of
        Inl err \<Rightarrow> []
      | Inr clusterBackend \<Rightarrow>
          (case GetOperations clusterBackend of
             Inl err \<Rightarrow> []
           | Inr clusterOperations \<Rightarrow> clusterOperations))"

definition cluster_pointer :: "LocalEnvironment \<Rightarrow> SiteOperation option" where
  "cluster_pointer localEnv =
     (case cluster_result localEnv of [] \<Rightarrow> None | first # _ \<Rightarrow> Some first)"

definition cluster_part :: "LocalEnvironment \<Rightarrow> SiteOperation list" where
  "cluster_part localEnv =
     (case cluster_result localEnv of [] \<Rightarrow> [] | first # rest \<Rightarrow> first # rest @ [first])"

definition environment_result :: "LocalEnvironment option \<Rightarrow> SiteOperation list" where
  "environment_result env =
     (case env of
        None \<Rightarrow> []
      | Some e \<Rightarrow> (case GetLastOperation (Backend e) of Inl err \<Rightarrow> [] | Inr op \<Rightarrow> [op]))"

text \<open>
  The wizard is connected when the remote environment is created, has an operator, and
  the operator's \<^verbatim>\<open>GetLocalSite\<close> succeeds. \<open>install_result\<close> is what the install sources
  return: the operator's last operation when the wizard is connected, that of the local
  wizard backend otherwise.
\<close>

definition wizard_connected :: "Ambient \<Rightarrow> (Operator \<times> SiteKey) option" where
  "wizard_connected amb =
     (case NewRemoteEnvironment amb of
        Inl err \<Rightarrow> None
      | Inr wizardEnv \<Rightarrow>
          (case Operator wizardEnv of
             None \<Rightarrow> None
           | Some operator \<Rightarrow>
               (case GetLocalSite operator of
                  Inl err \<Rightarrow> None
                | Inr clusterKey \<Rightarrow> Some (operator, clusterKey))))"

definition install_result :: "Ambient \<Rightarrow> LocalEnvironment \<Rightarrow> SiteOperation list" where
  "install_result amb localEnv =
     (case wizard_connected amb of
        Some (operator, clusterKey) \<Rightarrow>
          (case OperatorGetLastOperation operator clusterKey of
             Inl err \<Rightarrow> []
           | Inr op \<Rightarrow> [op])
      | None \<Rightarrow>
          (case NewLocalWizardEnvironment localEnv of
             Inl err \<Rightarrow> []
           | Inr wizardBackend \<Rightarrow>
               (case GetLastOperation wizardBackend of Inl err \<Rightarrow> [] | Inr op \<Rightarrow> [op])))"

definition install_consulted :: "LocalEnvironment \<Rightarrow> bool" where
  "install_consulted localEnv =
     (case cluster_pointer localEnv of None \<Rightarrow> True | Some op \<Rightarrow> Type op = OperationInstall)"

definition install_part :: "Ambient \<Rightarrow> LocalEnvironment \<Rightarrow> SiteOperation list" where
  "install_part amb localEnv =
     (if install_consulted localEnv then install_result amb localEnv else [])"

definition merge_sequence ::
  "Ambient \<Rightarrow> LocalEnvironment \<Rightarrow> LocalEnvironment option \<Rightarrow> LocalEnvironment option \<Rightarrow>
   SiteOperation list" where
  "merge_sequence amb localEnv updateEnv joinEnv =
     cluster_part localEnv @ environment_result updateEnv @ environment_result joinEnv @
     install_part amb localEnv"

text \<open>Merging a sequence of operations into a map: a later operation overwrites an earlier
  one of the same ID.\<close>

definition merge_into :: "SiteOperation list \<Rightarrow> (string \<rightharpoonup> SiteOperation) \<Rightarrow> (string \<rightharpoonup> SiteOperation)" where
  "merge_into ops m = fold (\<lambda>op m. m(ID op \<mapsto> op)) ops m"

text \<open>The reads of the install sources, and the receiver before they are consulted.\<close>

definition install_queries :: "query set" where
  "install_queries =
     {QueryRemoteEnvironment, QueryOperatorLocalSite, QueryOperatorLastOperation,
      QueryLocalWizardEnvironment, QueryLocalWizardBackend}"

definition before_install ::
  "LocalEnvironment \<Rightarrow> LocalEnvironment option \<Rightarrow> LocalEnvironment option \<Rightarrow> backendOperations" where
  "before_install localEnv updateEnv joinEnv =
     List_environment QueryJoinBackend
       (List_environment QueryUpdateBackend (List_cluster newBackendOperations localEnv) updateEnv)
       joinEnv"

text \<open>
  The installer a phase runs with, and the error of an action an operation type does not
  support.
\<close>

definition chosen_installer :: "'i PhaseParams \<Rightarrow> 'i Installer" where
  "chosen_installer params = (case Installer params of None \<Rightarrow> defaultInstaller | Some i \<Rightarrow> i)"

definition unsupported :: "string \<Rightarrow> operation_type \<Rightarrow> error" where
  "unsupported action t =
     BadParameter (''operation type %q does not support plan '' @ action) [ArgType t]"

section \<open>Scenarios\<close>

text \<open>
  Concrete inputs on which the properties are evaluated. \<open>backend_of\<close> is a backend holding
  the given operations, most recent first; \<open>cluster_env\<close> a local environment whose cluster
  backend holds the given operations and which has no local wizard environment;
  \<open>wizard_env\<close> one that has a local wizard environment too; \<open>env_of\<close> an update or join
  environment. \<open>go ks\<close> is a process whose \<^verbatim>\<open>range\<close> visits the keys in the order \<open>ks\<close>,
  whose \<^verbatim>\<open>sort.Slice\<close> is insertion sort, and which reaches no remote wizard.
\<close>

definition backend_of :: "SiteOperation list \<Rightarrow> Backend" where
  "backend_of ops =
     \<lparr>GetOperations = Inr ops,
      GetLastOperation = (case ops of [] \<Rightarrow> Inl (NotFound ''no operation found'' []) | op # _ \<Rightarrow> Inr op)\<rparr>"

definition unreachable :: error where
  "unreachable = OtherError ''connection refused''"

definition wizard_failure :: error where
  "wizard_failure = WrapMessage unreachable ''failed to read local wizard environment''"

definition cluster_env :: "SiteOperation list \<Rightarrow> LocalEnvironment" where
  "cluster_env ops =
     \<lparr>Backend = backend_of [],
      NewClusterEnvironment = Inr (backend_of ops),
      NewLocalWizardEnvironment = Inl unreachable\<rparr>"

definition wizard_env :: "SiteOperation list \<Rightarrow> SiteOperation list \<Rightarrow> LocalEnvironment" where
  "wizard_env ops wizard =
     \<lparr>Backend = backend_of [],
      NewClusterEnvironment = Inr (backend_of ops),
      NewLocalWizardEnvironment = Inr (backend_of wizard)\<rparr>"

definition env_of :: "SiteOperation list \<Rightarrow> LocalEnvironment" where
  "env_of ops =
     \<lparr>Backend = backend_of ops,
      NewClusterEnvironment = Inl unreachable,
      NewLocalWizardEnvironment = Inl unreachable\<rparr>"

definition go :: "string list \<Rightarrow> Ambient" where
  "go ks = \<lparr>range_order = ks, sort_Slice = insertionSort, NewRemoteEnvironment = Inl unreachable\<rparr>"

text \<open>
  The scenario of the spec: the cluster backend holds the completed update \<open>A\<close> created
  at 0, the update environment the running update \<open>B\<close> created at 1.
\<close>

definition opA :: SiteOperation where
  "opA = \<lparr>ID = ''A'', Type = OperationUpdate, Created = 0, Status = StatusCompleted\<rparr>"

definition opB :: SiteOperation where
  "opB = \<lparr>ID = ''B'', Type = OperationUpdate, Created = 1, Status = StatusActive\<rparr>"

definition merged_AB :: backendOperations where
  "merged_AB =
     \<lparr>operations = [''A'' \<mapsto> opA, ''B'' \<mapsto> opB],
      clusterOperation = Some opA,
      queried = [QueryClusterEnvironment, QueryClusterOperations, QueryUpdateBackend]\<rparr>"

definition merged_A :: backendOperations where
  "merged_A =
     \<lparr>operations = [''A'' \<mapsto> opA],
      clusterOperation = Some opA,
      queried = [QueryClusterEnvironment, QueryClusterOperations]\<rparr>"

text \<open>The same with \<open>B\<close> created at 0 as well: a tie.\<close>

definition opB_tie :: SiteOperation where
  "opB_tie = \<lparr>ID = ''B'', Type = OperationUpdate, Created = 0, Status = StatusActive\<rparr>"

definition merged_tie :: backendOperations where
  "merged_tie =
     \<lparr>operations = [''A'' \<mapsto> opA, ''B'' \<mapsto> opB_tie],
      clusterOperation = Some opA,
      queried = [QueryClusterEnvironment, QueryClusterOperations, QueryUpdateBackend]\<rparr>"

text \<open>Two more versions of the operation \<open>A\<close>, as an update and a join environment hold them.\<close>

definition opA_update :: SiteOperation where
  "opA_update = \<lparr>ID = ''A'', Type = OperationUpdate, Created = 0, Status = StatusActive\<rparr>"

definition opA_join :: SiteOperation where
  "opA_join = \<lparr>ID = ''A'', Type = OperationUpdate, Created = 0, Status = StatusFailed\<rparr>"

text \<open>
  An install operation as the cluster backend and as the wizard report it, and a garbage
  collection.
\<close>

definition opI :: SiteOperation where
  "opI = \<lparr>ID = ''I'', Type = OperationInstall, Created = 0, Status = StatusCompleted\<rparr>"

definition opI_wizard :: SiteOperation where
  "opI_wizard = \<lparr>ID = ''I'', Type = OperationInstall, Created = 0, Status = StatusActive\<rparr>"

definition opG :: SiteOperation where
  "opG = \<lparr>ID = ''G'', Type = OperationGarbageCollect, Created = 2, Status = StatusActive\<rparr>"

text \<open>
  Handlers that record their name in the world, a list of names, and succeed; and phase
  parameters with no installer injected.
\<close>

definition spy :: "string \<Rightarrow> string list action" where
  "spy name w = (None, w @ [name])"

definition spies :: "(nat, string list) Externals" where
  "spies =
     \<lparr>RootPhase = ''/'',
      executeInstallPhase = (\<lambda>localEnv p op. spy ''executeInstallPhase''),
      rollbackInstallPhase = (\<lambda>localEnv p op. spy ''rollbackInstallPhase''),
      startInstall = (\<lambda>localEnv. spy ''startInstall''),
      executeJoinPhase = (\<lambda>localEnv joinEnv p op. spy ''executeJoinPhase''),
      rollbackJoinPhase = (\<lambda>localEnv joinEnv p op. spy ''rollbackJoinPhase''),
      executeUpdatePhase = (\<lambda>localEnv updateEnv p op. spy ''executeUpdatePhase''),
      rollbackUpdatePhase = (\<lambda>localEnv updateEnv p op. spy ''rollbackUpdatePhase''),
      executeEnvironPhase = (\<lambda>localEnv updateEnv p op. spy ''executeEnvironPhase''),
      rollbackEnvironPhase = (\<lambda>localEnv updateEnv p op. spy ''rollbackEnvironPhase''),
      executeConfigPhase = (\<lambda>localEnv updateEnv p op. spy ''executeConfigPhase''),
      rollbackConfigPhase = (\<lambda>localEnv updateEnv p op. spy ''rollbackConfigPhase''),
      executeGarbageCollectPhase = (\<lambda>localEnv p op. spy ''executeGarbageCollectPhase''),
      completeInstallPlan = (\<lambda>localEnv op. spy ''completeInstallPlan''),
      completeJoinPlan = (\<lambda>localEnv joinEnv op. spy ''completeJoinPlan''),
      completeUpdatePlan = (\<lambda>localEnv updateEnv op. spy ''completeUpdatePlan''),
      completeEnvironPlan = (\<lambda>localEnv updateEnv op. spy ''completeEnvironPlan''),
      completeConfigPlan = (\<lambda>localEnv updateEnv op. spy ''completeConfigPlan''),
      injectedExecutePhase = (\<lambda>i localEnv p op. spy ''Installer.ExecutePhase''),
      injectedRollbackPhase = (\<lambda>i localEnv p op. spy ''Installer.RollbackPhase''),
      injectedRestart = (\<lambda>i localEnv. spy ''Installer.Restart'')\<rparr>"

definition phase :: "string \<Rightarrow> string \<Rightarrow> nat PhaseParams" where
  "phase phaseID operationID =
     \<lparr>PhaseID = phaseID, OperationID = operationID, Force = False, Timeout = 0,
      SkipVersionCheck = False, Installer = None\<rparr>"

section \<open>Lemmas on the resolver\<close>

lemma getActiveOperationFromList_find:
  "getActiveOperationFromList xs =
     (case find (\<lambda>op. \<not> IsCompleted op) xs of
        None \<Rightarrow> Inl (NotFound ''no active operations found'' [])
      | Some op \<Rightarrow> Inr op)"
  by (induction xs) simp_all

lemma set_map_filter_map: "set (List.map_filter m ks) = {y. \<exists>k\<in>set ks. m k = Some y}"
  by (induction ks) (auto simp: List.map_filter_simps split: option.splits)

lemma set_range_values:
  assumes "range_visits (range_order amb) m"
  shows "set (range_values amb m) = ran m"
  using assms unfolding range_visits_def range_values_def set_map_filter_map ran_def
  by auto

lemma getBackendOperations_Inr:
  assumes "backendOperations_List amb newBackendOperations localEnv updateEnv joinEnv = (None, b)"
  shows "getBackendOperations amb localEnv updateEnv joinEnv operationID =
           Inr (sort_Slice amb created_after
                  (filter (\<lambda>op. operationID = [] \<or> operationID = ID op)
                     (range_values amb (operations b))))"
  using assms by (simp add: getBackendOperations_def)

lemma resolved_list:
  assumes L: "backendOperations_List amb newBackendOperations localEnv updateEnv joinEnv = (None, b)"
      and ok: "go_ok amb b operationID"
  obtains result where
    "getBackendOperations amb localEnv updateEnv joinEnv operationID = Inr result"
    "set result = candidates b operationID"
    "sorted_wrt (\<lambda>x y. Created y \<le> Created x) result"
proof -
  let ?xs = "filter (\<lambda>op. operationID = [] \<or> operationID = ID op) (range_values amb (operations b))"
  let ?r = "sort_Slice amb created_after ?xs"
  from ok have rv: "range_visits (range_order amb) (operations b)"
    and m: "mset ?r = mset ?xs"
    and s: "sorted_wrt (\<lambda>x y. \<not> created_after y x) ?r"
    by (simp_all add: go_ok_def sorts_def)
  from m have "set ?r = set ?xs" by (rule mset_eq_setD)
  with rv have 1: "set ?r = candidates b operationID"
    by (auto simp: set_range_values candidates_def)
  from s have 2: "sorted_wrt (\<lambda>x y. Created y \<le> Created x) ?r"
    by (simp add: created_after_def After_def not_less)
  from getBackendOperations_Inr[OF L] 1 2 that show thesis by blast
qed

lemma find_sorted_wrt:
  "sorted_wrt R xs \<Longrightarrow> find P xs = Some x \<Longrightarrow> y \<in> set xs \<Longrightarrow> P y \<Longrightarrow> y = x \<or> R x y"
  by (induction xs) (auto split: if_splits)

lemma find_Some_set: "find P xs = Some x \<Longrightarrow> x \<in> set xs \<and> P x"
  by (induction xs) (auto split: if_splits)

lemma find_None_all: "find P xs = None \<longleftrightarrow> (\<forall>x\<in>set xs. \<not> P x)"
  by (induction xs) auto

lemma find_None_iff_ID: "find (\<lambda>op. ID op = k) xs = None \<longleftrightarrow> k \<notin> ID ` set xs"
  by (induction xs) auto

lemma find_append_case:
  "find P (xs @ ys) = (case find P xs of None \<Rightarrow> find P ys | Some x \<Rightarrow> Some x)"
  by (induction xs) simp_all

lemma last_operation_maximal:
  assumes L: "backendOperations_List amb newBackendOperations localEnv updateEnv joinEnv = (None, b)"
      and ok: "go_ok amb b operationID"
      and ne: "candidates b operationID \<noteq> {}"
  obtains op where
    "fst (getLastOperation amb localEnv updateEnv joinEnv operationID) = Inr op"
    "op \<in> candidates b operationID"
    "\<forall>c\<in>candidates b operationID. Created c \<le> Created op"
proof -
  from resolved_list[OF L ok] obtain result where
    g: "getBackendOperations amb localEnv updateEnv joinEnv operationID = Inr result"
    and st: "set result = candidates b operationID"
    and so: "sorted_wrt (\<lambda>x y. Created y \<le> Created x) result" by blast
  from ne st obtain op rest where r: "result = op # rest" by (cases result) auto
  from so r have "\<forall>c\<in>set result. Created c \<le> Created op" by auto
  then have mx: "\<forall>c\<in>candidates b operationID. Created c \<le> Created op" by (simp add: st)
  from r st have mem: "op \<in> candidates b operationID" by auto
  have "fst (getLastOperation amb localEnv updateEnv joinEnv operationID) = Inr op"
    by (simp add: getLastOperation_def g r Let_def)
  with mem mx that show thesis by blast
qed

lemma empty_filtered_set_NotFound:
  assumes L: "backendOperations_List amb newBackendOperations localEnv updateEnv joinEnv = (None, b)"
      and ok: "go_ok amb b operationID"
      and em: "candidates b operationID = {}"
  shows "getActiveOperation amb localEnv updateEnv joinEnv operationID =
           (if operationID \<noteq> [] then
              Inl (NotFound ''no operation with ID %v found'' [ArgString operationID])
            else Inl (NotFound ''no operation found'' []))"
    and "fst (getLastOperation amb localEnv updateEnv joinEnv operationID) =
           (if operationID \<noteq> [] then
              Inl (NotFound ''no operation with ID %v found'' [ArgString operationID])
            else Inl (NotFound ''no operation found'' []))"
proof -
  from resolved_list[OF L ok] obtain result where
    g: "getBackendOperations amb localEnv updateEnv joinEnv operationID = Inr result"
    and st: "set result = candidates b operationID"
    and so: "sorted_wrt (\<lambda>x y. Created y \<le> Created x) result" by blast
  from st em have "set result = {}" by (rule trans)
  then have r: "result = []" by (simp only: set_empty)
  have g': "getBackendOperations amb localEnv updateEnv joinEnv operationID = Inr []"
    using g r by (rule back_subst)
  show "getActiveOperation amb localEnv updateEnv joinEnv operationID =
             (if operationID \<noteq> [] then
                Inl (NotFound ''no operation with ID %v found'' [ArgString operationID])
              else Inl (NotFound ''no operation found'' []))"
    unfolding getActiveOperation_def g' by simp
  show "fst (getLastOperation amb localEnv updateEnv joinEnv operationID) =
             (if operationID \<noteq> [] then
                Inl (NotFound ''no operation with ID %v found'' [ArgString operationID])
              else Inl (NotFound ''no operation found'' []))"
    unfolding getLastOperation_def g' by simp
qed

lemma failed_merge_propagates:
  assumes L: "backendOperations_List amb newBackendOperations localEnv updateEnv joinEnv
                = (Some err, b)"
  shows "getBackendOperations amb localEnv updateEnv joinEnv operationID = Inl (Wrap err)"
    and "getActiveOperation amb localEnv updateEnv joinEnv operationID = Inl (Wrap (Wrap err))"
    and "fst (getLastOperation amb localEnv updateEnv joinEnv operationID) = Inl (Wrap (Wrap err))"
  using L by (simp_all add: getBackendOperations_def getActiveOperation_def getLastOperation_def)

lemma completed_candidates_NotFound:
  assumes L: "backendOperations_List amb newBackendOperations localEnv updateEnv joinEnv = (None, b)"
      and ok: "go_ok amb b operationID"
      and completed: "\<forall>c\<in>candidates b operationID. IsCompleted c"
  shows "\<exists>err. getActiveOperation amb localEnv updateEnv joinEnv operationID = Inl err
             \<and> IsNotFound err"
proof -
  from resolved_list[OF L ok] obtain result where
    g: "getBackendOperations amb localEnv updateEnv joinEnv operationID = Inr result"
    and st: "set result = candidates b operationID"
    and so: "sorted_wrt (\<lambda>x y. Created y \<le> Created x) result" by blast
  from completed st have "find (\<lambda>c. \<not> IsCompleted c) result = None"
    by (simp add: find_None_all)
  then show ?thesis
    by (simp add: getActiveOperation_def g getActiveOperationFromList_find)
qed

lemma active_operation_not_completed:
  "getActiveOperation amb localEnv updateEnv joinEnv operationID = Inr op \<Longrightarrow> \<not> IsCompleted op"
  by (auto simp: getActiveOperation_def getActiveOperationFromList_find
      split: sum.splits if_splits option.splits dest: find_Some_set)

lemma no_dispatch_on_error:
  assumes "getActiveOperation amb localEnv updateEnv joinEnv (OperationID params) = Inl err"
  shows "ExecutePhase X amb localEnv updateEnv joinEnv params w = (Some (Wrap err), w)"
    and "RollbackPhase X amb localEnv updateEnv joinEnv params w = (Some (Wrap err), w)"
    and "completeOperationPlan X amb localEnv updateEnv joinEnv (OperationID params) w =
           (Some (Wrap err), w)"
  using assms by (simp_all add: ExecutePhase_def RollbackPhase_def completeOperationPlan_def)

subsection \<open>Insertion sort meets the contract of \<^verbatim>\<open>sort.Slice\<close>\<close>

lemma mset_insert_left: "mset (insert_left lt x ys) = add_mset x (mset ys)"
  by (induction ys) simp_all

lemma set_insert_left: "set (insert_left lt x ys) = insert x (set ys)"
  by (induction ys) auto

lemma sorted_insert_left:
  assumes asym: "\<And>a b. lt a b \<Longrightarrow> \<not> lt b a"
      and neg: "\<And>a b c. lt a c \<Longrightarrow> lt a b \<or> lt b c"
  shows "sorted_wrt (\<lambda>a b. \<not> lt a b) ys \<Longrightarrow> sorted_wrt (\<lambda>a b. \<not> lt a b) (insert_left lt x ys)"
proof (induction ys)
  case Nil
  then show ?case by simp
next
  case (Cons y ys)
  show ?case
  proof (cases "lt x y")
    case True
    with Cons asym show ?thesis by (auto simp: set_insert_left)
  next
    case False
    with Cons neg show ?thesis by auto
  qed
qed

lemma fold_insert_left:
  assumes asym: "\<And>a b. lt a b \<Longrightarrow> \<not> lt b a"
      and neg: "\<And>a b c. lt a c \<Longrightarrow> lt a b \<or> lt b c"
  shows "sorted_wrt (\<lambda>a b. \<not> lt a b) acc \<Longrightarrow>
         sorted_wrt (\<lambda>a b. \<not> lt a b) (fold (insert_left lt) xs acc)
       \<and> mset (fold (insert_left lt) xs acc) = mset xs + mset acc"
proof (induction xs arbitrary: acc)
  case Nil
  then show ?case by simp
next
  case (Cons x xs)
  from sorted_insert_left [of lt acc x, OF asym neg Cons.prems]
  have "sorted_wrt (\<lambda>a b. \<not> lt a b) (insert_left lt x acc)" by blast
  from Cons.IH [OF this] show ?case by (simp add: mset_insert_left)
qed

lemma insertionSort_sorts:
  assumes asym: "\<And>a b. lt a b \<Longrightarrow> \<not> lt b a"
      and neg: "\<And>a b c. lt a c \<Longrightarrow> lt a b \<or> lt b c"
  shows "sorts insertionSort lt xs"
proof -
  from fold_insert_left [of lt "[]" xs, OF asym neg]
  have s: "sorted_wrt (\<lambda>a b. \<not> lt a b) (fold (insert_left lt) xs [])"
    and m: "mset (fold (insert_left lt) xs []) = mset xs" by simp_all
  from s have "sorted_wrt (\<lambda>a b. \<not> lt b a) (rev (fold (insert_left lt) xs []))"
    by (simp add: sorted_wrt_rev)
  with m show ?thesis by (simp add: sorts_def insertionSort_def)
qed

lemma insertionSort_sorts_created_after: "sorts insertionSort created_after xs"
  by (rule insertionSort_sorts) (auto simp: created_after_def After_def)

subsection \<open>The merge, step by step\<close>

lemma merge_into_simps [simp]:
  "merge_into [] m = m"
  "merge_into (op # ops) m = merge_into ops (m(ID op \<mapsto> op))"
  "merge_into (xs @ ys) m = merge_into ys (merge_into xs m)"
  by (simp_all add: merge_into_def)

lemma merge_into_last:
  "merge_into ops m k = (case find (\<lambda>op. ID op = k) (rev ops) of None \<Rightarrow> m k | Some op \<Rightarrow> Some op)"
proof (induction ops arbitrary: m)
  case Nil
  then show ?case by simp
next
  case (Cons op ops)
  show ?case
    by (simp add: Cons.IH find_append_case split: option.splits)
qed

lemma getOperationAndUpdateCache_facts:
  "operations (snd (getOperationAndUpdateCache r (q, resp))) =
     merge_into (case resp of Inl err \<Rightarrow> [] | Inr op \<Rightarrow> [op]) (operations r)"
  "clusterOperation (snd (getOperationAndUpdateCache r (q, resp))) = clusterOperation r"
  "queried (snd (getOperationAndUpdateCache r (q, resp))) = queried r @ [q]"
  by (simp_all add: getOperationAndUpdateCache_def note_query_def split: sum.splits)

lemma List_cluster_operations:
  "operations (List_cluster r localEnv) = merge_into (cluster_part localEnv) (operations r)"
  by (simp add: List_cluster_def backendOperations_init_def note_query_def cluster_part_def
      cluster_result_def merge_into_def split: sum.splits list.splits)

lemma List_cluster_pointer:
  "clusterOperation (List_cluster newBackendOperations localEnv) = cluster_pointer localEnv"
  by (simp add: List_cluster_def backendOperations_init_def note_query_def cluster_pointer_def
      cluster_result_def newBackendOperations_def split: sum.splits list.splits)

lemma List_cluster_queried:
  "set (queried (List_cluster r localEnv)) \<inter> install_queries = set (queried r) \<inter> install_queries"
  by (auto simp: List_cluster_def backendOperations_init_def note_query_def install_queries_def
      Let_def split: sum.splits list.splits)

lemma List_environment_operations:
  "operations (List_environment q r env) = merge_into (environment_result env) (operations r)"
  by (simp add: List_environment_def environment_result_def getOperationFromBackend_def
      getOperationAndUpdateCache_facts split: option.splits sum.splits)

lemma List_environment_pointer:
  "clusterOperation (List_environment q r env) = clusterOperation r"
  by (simp add: List_environment_def getOperationFromBackend_def
      getOperationAndUpdateCache_facts split: option.splits)

lemma List_environment_queried:
  "q \<notin> install_queries \<Longrightarrow>
   set (queried (List_environment q r env)) \<inter> install_queries = set (queried r) \<inter> install_queries"
  by (simp add: List_environment_def getOperationFromBackend_def
      getOperationAndUpdateCache_facts split: option.splits)

lemma List_localWizard_facts:
  "operations (snd (List_localWizard r localEnv)) =
     merge_into (case NewLocalWizardEnvironment localEnv of
                   Inl err \<Rightarrow> []
                 | Inr wizardBackend \<Rightarrow>
                     (case GetLastOperation wizardBackend of Inl err \<Rightarrow> [] | Inr op \<Rightarrow> [op]))
       (operations r)"
  "clusterOperation (snd (List_localWizard r localEnv)) = clusterOperation r"
  "fst (List_localWizard r localEnv) =
     (case NewLocalWizardEnvironment localEnv of
        Inl err \<Rightarrow> Some (WrapMessage err ''failed to read local wizard environment'')
      | Inr wizardBackend \<Rightarrow> None)"
  "queried (snd (List_localWizard r localEnv)) =
     queried r @ QueryLocalWizardEnvironment #
       (if isl (NewLocalWizardEnvironment localEnv) then [] else [QueryLocalWizardBackend])"
  by (simp_all add: List_localWizard_def Let_def note_query_def getOperationFromBackend_def
      getOperationAndUpdateCache_facts split: sum.splits)

lemma List_install_operations:
  "operations (snd (List_install amb r localEnv)) =
     merge_into (install_result amb localEnv) (operations r)"
  by (auto simp: List_install_def Let_def note_query_def install_result_def wizard_connected_def
      getOperationFromOperator_def getOperationAndUpdateCache_facts List_localWizard_facts
      split: sum.splits option.splits)

lemma List_install_pointer:
  "clusterOperation (snd (List_install amb r localEnv)) = clusterOperation r"
  by (simp add: List_install_def Let_def note_query_def
      getOperationFromOperator_def getOperationAndUpdateCache_facts List_localWizard_facts
      split: sum.splits option.splits)

lemma List_install_error:
  "fst (List_install amb r localEnv) =
     (case wizard_connected amb of
        Some c \<Rightarrow> None
      | None \<Rightarrow>
          (case NewLocalWizardEnvironment localEnv of
             Inl err \<Rightarrow> Some (WrapMessage err ''failed to read local wizard environment'')
           | Inr wizardBackend \<Rightarrow> None))"
  by (simp add: List_install_def Let_def wizard_connected_def List_localWizard_facts
      split: sum.splits option.splits)

lemma List_install_queried_ex:
  "\<exists>qs. queried (snd (List_install amb r localEnv)) = queried r @ QueryRemoteEnvironment # qs
      \<and> (QueryOperatorLastOperation \<in> set qs \<longleftrightarrow> wizard_connected amb \<noteq> None)
      \<and> (QueryLocalWizardEnvironment \<in> set qs \<longleftrightarrow> wizard_connected amb = None)
      \<and> (QueryLocalWizardBackend \<in> set qs \<longleftrightarrow>
           wizard_connected amb = None \<and> \<not> isl (NewLocalWizardEnvironment localEnv))"
  by (simp add: List_install_def Let_def note_query_def wizard_connected_def
      getOperationFromOperator_def getOperationAndUpdateCache_facts List_localWizard_facts
      split: sum.splits option.splits)

lemma List_install_queried:
  obtains qs where
    "queried (snd (List_install amb r localEnv)) = queried r @ QueryRemoteEnvironment # qs"
    "QueryOperatorLastOperation \<in> set qs \<longleftrightarrow> wizard_connected amb \<noteq> None"
    "QueryLocalWizardEnvironment \<in> set qs \<longleftrightarrow> wizard_connected amb = None"
    "QueryLocalWizardBackend \<in> set qs \<longleftrightarrow>
       wizard_connected amb = None \<and> \<not> isl (NewLocalWizardEnvironment localEnv)"
  using List_install_queried_ex [of amb r localEnv] by (elim exE conjE)

lemma before_install_operations:
  "operations (before_install localEnv updateEnv joinEnv) =
     merge_into (cluster_part localEnv @ environment_result updateEnv @ environment_result joinEnv)
       Map.empty"
  by (simp add: before_install_def List_environment_operations List_cluster_operations
      newBackendOperations_def)

lemma before_install_pointer:
  "clusterOperation (before_install localEnv updateEnv joinEnv) = cluster_pointer localEnv"
  by (simp add: before_install_def List_environment_pointer List_cluster_pointer)

lemma before_install_queried:
  "set (queried (before_install localEnv updateEnv joinEnv)) \<inter> install_queries = {}"
proof -
  have "QueryUpdateBackend \<notin> install_queries" "QueryJoinBackend \<notin> install_queries"
    by (simp_all add: install_queries_def)
  then show ?thesis
    by (simp add: before_install_def List_environment_queried List_cluster_queried
        newBackendOperations_def)
qed

lemma isActiveInstallOperation_before_install:
  "isActiveInstallOperation (before_install localEnv updateEnv joinEnv) = install_consulted localEnv"
  by (simp add: isActiveInstallOperation_def install_consulted_def before_install_pointer)

lemma List_unfold:
  "backendOperations_List amb newBackendOperations localEnv updateEnv joinEnv =
     (if install_consulted localEnv
      then List_install amb (before_install localEnv updateEnv joinEnv) localEnv
      else (None, before_install localEnv updateEnv joinEnv))"
  unfolding backendOperations_List_def Let_def before_install_def [symmetric]
    isActiveInstallOperation_before_install
  by simp

lemma List_operations:
  "operations (snd (backendOperations_List amb newBackendOperations localEnv updateEnv joinEnv)) =
     merge_into (merge_sequence amb localEnv updateEnv joinEnv) Map.empty"
  by (simp add: List_unfold List_install_operations before_install_operations merge_sequence_def
      install_part_def)

lemma List_pointer:
  "clusterOperation (snd (backendOperations_List amb newBackendOperations localEnv updateEnv joinEnv))
     = cluster_pointer localEnv"
  by (simp add: List_unfold List_install_pointer before_install_pointer)

lemma List_error:
  "fst (backendOperations_List amb newBackendOperations localEnv updateEnv joinEnv) =
     (if install_consulted localEnv \<and> wizard_connected amb = None
      then (case NewLocalWizardEnvironment localEnv of
              Inl err \<Rightarrow> Some (WrapMessage err ''failed to read local wizard environment'')
            | Inr wizardBackend \<Rightarrow> None)
      else None)"
  by (simp add: List_unfold List_install_error split: option.splits)

lemma List_same_sources:
  "NewRemoteEnvironment amb1 = NewRemoteEnvironment amb2 \<Longrightarrow>
   backendOperations_List amb1 r localEnv updateEnv joinEnv =
   backendOperations_List amb2 r localEnv updateEnv joinEnv"
  by (simp add: backendOperations_List_def List_install_def Let_def)

section \<open>Facts of the scenarios\<close>

lemmas scenario_defs = opA_def opB_def backend_of_def unreachable_def cluster_env_def env_of_def
  go_def merged_AB_def

lemmas List_defs = backendOperations_List_def List_cluster_def List_environment_def
  List_install_def List_localWizard_def backendOperations_init_def
  getOperationAndUpdateCache_def getOperationFromBackend_def getOperationFromOperator_def
  isActiveInstallOperation_def note_query_def newBackendOperations_def

lemma List_AB:
  "backendOperations_List (go ks) newBackendOperations (cluster_env [opA]) (Some (env_of [opB])) None
     = (None, merged_AB)"
  by (simp add: scenario_defs List_defs)

lemma go_ok_AB: "go_ok (go [''A'', ''B'']) merged_AB []"
  by (auto simp: go_ok_def range_visits_def sorts_def range_values_def List.map_filter_simps
      insertionSort_def created_after_def After_def scenario_defs)

lemma go_ok_BA: "go_ok (go [''B'', ''A'']) merged_AB []"
  by (auto simp: go_ok_def range_visits_def sorts_def range_values_def List.map_filter_simps
      insertionSort_def created_after_def After_def scenario_defs)

lemma ran_AB: "ran (operations merged_AB) = {opA, opB}"
  by (simp add: merged_AB_def ran_map_upd insert_commute)

lemma candidates_AB: "candidates merged_AB [] = {opA, opB}"
  by (auto simp: candidates_def ran_AB)

lemma go_ok_AB_C: "go_ok (go [''A'', ''B'']) merged_AB ''C''"
  by (auto simp: go_ok_def range_visits_def sorts_def range_values_def List.map_filter_simps
      insertionSort_def created_after_def After_def scenario_defs)

lemma candidates_AB_C: "candidates merged_AB ''C'' = {}"
  by (auto simp: candidates_def ran_AB) (simp_all add: opA_def opB_def)

lemma active_AB:
  "getActiveOperation (go [''A'', ''B'']) (cluster_env [opA]) (Some (env_of [opB])) None [] = Inr opB"
  by (simp add: getActiveOperation_def getBackendOperations_def List_AB)
     (simp add: merged_AB_def go_def range_values_def List.map_filter_simps insertionSort_def
        created_after_def After_def IsCompleted_def opA_def opB_def)

lemma active_G:
  "getActiveOperation (go [''G'']) (cluster_env [opG]) None None [] = Inr opG"
  by (simp add: getActiveOperation_def getBackendOperations_def scenario_defs List_defs
        range_values_def List.map_filter_simps insertionSort_def
        created_after_def After_def IsCompleted_def opG_def)

lemma List_A:
  "backendOperations_List (go ks) newBackendOperations (cluster_env [opA]) None None = (None, merged_A)"
  by (simp add: scenario_defs List_defs merged_A_def)

lemma go_ok_A: "go_ok (go [''A'']) merged_A []"
  by (auto simp: go_ok_def range_visits_def sorts_def range_values_def List.map_filter_simps
      insertionSort_def created_after_def After_def scenario_defs merged_A_def)

lemma candidates_A: "candidates merged_A [] = {opA}"
  by (auto simp: candidates_def merged_A_def)

lemma last_A:
  "fst (getLastOperation (go [''A'']) (cluster_env [opA]) None None []) = Inr opA"
  by (simp add: getLastOperation_def getBackendOperations_def List_A)
     (simp add: merged_A_def go_def range_values_def List.map_filter_simps insertionSort_def)

lemma List_nothing:
  "backendOperations_List (go ks) newBackendOperations (wizard_env [] []) None None =
     (None, \<lparr>operations = Map.empty, clusterOperation = None,
             queried = [QueryClusterEnvironment, QueryClusterOperations, QueryRemoteEnvironment,
                        QueryLocalWizardEnvironment, QueryLocalWizardBackend]\<rparr>)"
  by (simp add: scenario_defs List_defs wizard_env_def)

lemma active_nothing:
  "getActiveOperation (go []) (wizard_env [] []) None None [] =
     Inl (NotFound ''no operation found'' [])"
  by (simp add: getActiveOperation_def getBackendOperations_def List_nothing)
     (simp add: go_def range_values_def List.map_filter_simps insertionSort_def)

lemma before_install_I:
  "before_install (wizard_env [opI] [opI_wizard]) None None =
     \<lparr>operations = [''I'' \<mapsto> opI], clusterOperation = Some opI,
      queried = [QueryClusterEnvironment, QueryClusterOperations]\<rparr>"
  by (simp add: before_install_def scenario_defs List_defs wizard_env_def opI_def)

lemma List_I:
  "backendOperations_List (go ks) newBackendOperations (wizard_env [opI] [opI_wizard]) None None =
     (None, \<lparr>operations = [''I'' \<mapsto> opI_wizard], clusterOperation = Some opI,
             queried = [QueryClusterEnvironment, QueryClusterOperations, QueryRemoteEnvironment,
                        QueryLocalWizardEnvironment, QueryLocalWizardBackend]\<rparr>)"
  by (simp add: scenario_defs List_defs wizard_env_def opI_def opI_wizard_def)

lemma List_A_update:
  "backendOperations_List (go ks) newBackendOperations (cluster_env [opA])
     (Some (env_of [opA_update])) None =
   (None, \<lparr>operations = [''A'' \<mapsto> opA_update], clusterOperation = Some opA,
           queried = [QueryClusterEnvironment, QueryClusterOperations, QueryUpdateBackend]\<rparr>)"
  by (simp add: scenario_defs List_defs opA_update_def)

lemma List_tie:
  "backendOperations_List (go ks) newBackendOperations (cluster_env [opA])
     (Some (env_of [opB_tie])) None = (None, merged_tie)"
  by (simp add: scenario_defs List_defs opB_tie_def merged_tie_def)

lemma go_ok_tie_AB: "go_ok (go [''A'', ''B'']) merged_tie []"
  by (auto simp: go_ok_def range_visits_def sorts_def range_values_def List.map_filter_simps
      insertionSort_def created_after_def After_def scenario_defs merged_tie_def opB_tie_def)

lemma go_ok_tie_BA: "go_ok (go [''B'', ''A'']) merged_tie []"
  by (auto simp: go_ok_def range_visits_def sorts_def range_values_def List.map_filter_simps
      insertionSort_def created_after_def After_def scenario_defs merged_tie_def opB_tie_def)

lemma getLastOperation_tie_AB:
  "fst (getLastOperation (go [''A'', ''B'']) (cluster_env [opA]) (Some (env_of [opB_tie])) None [])
     = Inr opA"
  by (simp add: getLastOperation_def getBackendOperations_def List_tie)
     (simp add: merged_tie_def go_def range_values_def List.map_filter_simps insertionSort_def
        created_after_def After_def opA_def opB_tie_def)

lemma getLastOperation_tie_BA:
  "fst (getLastOperation (go [''B'', ''A'']) (cluster_env [opA]) (Some (env_of [opB_tie])) None [])
     = Inr opB_tie"
  by (simp add: getLastOperation_def getBackendOperations_def List_tie)
     (simp add: merged_tie_def go_def range_values_def List.map_filter_simps insertionSort_def
        created_after_def After_def opA_def opB_tie_def)

lemma getBackendOperations_AB:
  "getBackendOperations (go [''A'', ''B'']) (cluster_env [opA]) (Some (env_of [opB])) None []
     = Inr [opB, opA]"
  by (simp add: getBackendOperations_def List_AB)
     (simp add: merged_AB_def go_def range_values_def List.map_filter_simps insertionSort_def
        created_after_def After_def opA_def opB_def)

lemma List_fails_nothing:
  "backendOperations_List (go ks) newBackendOperations (cluster_env []) None None =
     (Some wizard_failure,
      \<lparr>operations = Map.empty, clusterOperation = None,
       queried = [QueryClusterEnvironment, QueryClusterOperations, QueryRemoteEnvironment,
                  QueryLocalWizardEnvironment]\<rparr>)"
  by (simp add: scenario_defs List_defs wizard_failure_def)

lemma List_fails_I:
  "backendOperations_List (go ks) newBackendOperations (cluster_env [opI]) None None =
     (Some wizard_failure,
      \<lparr>operations = [''I'' \<mapsto> opI], clusterOperation = Some opI,
       queried = [QueryClusterEnvironment, QueryClusterOperations, QueryRemoteEnvironment,
                  QueryLocalWizardEnvironment]\<rparr>)"
  by (simp add: scenario_defs List_defs wizard_failure_def opI_def)

lemma wizard_failure_not_NotFound: "\<not> IsNotFound wizard_failure"
  by (simp add: wizard_failure_def unreachable_def)

section \<open>The active operation\<close>

text \<open>
  Claim C1. In a pass whose merge succeeded: if some operation matching the ID filter is
  not completed, \<^verbatim>\<open>getActiveOperation\<close> returns the first non-completed operation of the
  filtered list sorted by \<open>Created\<close> descending, which is a non-completed candidate created
  no earlier than any other non-completed candidate; if the filtered set is non-empty and
  every candidate is completed, it fails with NotFound "no active operations found"; and
  it never returns a completed operation.
\<close>

theorem getActiveOperation_most_recent_incomplete:
  assumes L: "backendOperations_List amb newBackendOperations localEnv updateEnv joinEnv = (None, b)"
      and ok: "go_ok amb b operationID"
  shows "((\<exists>c\<in>candidates b operationID. \<not> IsCompleted c) \<longrightarrow>
            (\<exists>result op.
               getBackendOperations amb localEnv updateEnv joinEnv operationID = Inr result
             \<and> getActiveOperation amb localEnv updateEnv joinEnv operationID = Inr op
             \<and> find (\<lambda>c. \<not> IsCompleted c) result = Some op
             \<and> op \<in> candidates b operationID
             \<and> \<not> IsCompleted op
             \<and> (\<forall>c\<in>candidates b operationID. \<not> IsCompleted c \<longrightarrow> Created c \<le> Created op)))
       \<and> (candidates b operationID \<noteq> {} \<and> (\<forall>c\<in>candidates b operationID. IsCompleted c) \<longrightarrow>
            getActiveOperation amb localEnv updateEnv joinEnv operationID =
              Inl (Wrap (NotFound ''no active operations found'' [])))
       \<and> (\<forall>op. getActiveOperation amb localEnv updateEnv joinEnv operationID = Inr op \<longrightarrow>
            \<not> IsCompleted op)"
proof -
  from resolved_list[OF L ok] obtain result where
    g: "getBackendOperations amb localEnv updateEnv joinEnv operationID = Inr result"
    and st: "set result = candidates b operationID"
    and so: "sorted_wrt (\<lambda>x y. Created y \<le> Created x) result" by blast
  have A: "getActiveOperation amb localEnv updateEnv joinEnv operationID =
             (if result = [] then
                (if operationID \<noteq> [] then
                   Inl (NotFound ''no operation with ID %v found'' [ArgString operationID])
                 else Inl (NotFound ''no operation found'' []))
              else (case find (\<lambda>c. \<not> IsCompleted c) result of
                      None \<Rightarrow> Inl (Wrap (NotFound ''no active operations found'' []))
                    | Some op \<Rightarrow> Inr op))"
    by (simp add: getActiveOperation_def g getActiveOperationFromList_find split: option.splits)
  have 1: "(\<exists>c\<in>candidates b operationID. \<not> IsCompleted c) \<longrightarrow>
            (\<exists>result op.
               getBackendOperations amb localEnv updateEnv joinEnv operationID = Inr result
             \<and> getActiveOperation amb localEnv updateEnv joinEnv operationID = Inr op
             \<and> find (\<lambda>c. \<not> IsCompleted c) result = Some op
             \<and> op \<in> candidates b operationID
             \<and> \<not> IsCompleted op
             \<and> (\<forall>c\<in>candidates b operationID. \<not> IsCompleted c \<longrightarrow> Created c \<le> Created op))"
  proof
    assume "\<exists>c\<in>candidates b operationID. \<not> IsCompleted c"
    then obtain c where c: "c \<in> set result" "\<not> IsCompleted c" using st by blast
    then have ne: "result \<noteq> []" by auto
    from c have "find (\<lambda>c. \<not> IsCompleted c) result \<noteq> None" by (auto simp: find_None_all)
    then obtain op where f: "find (\<lambda>c. \<not> IsCompleted c) result = Some op" by blast
    from find_Some_set[OF f] have m: "op \<in> set result" "\<not> IsCompleted op" by simp_all
    have "\<forall>c\<in>set result. \<not> IsCompleted c \<longrightarrow> Created c \<le> Created op"
      using find_sorted_wrt[OF so f] by fastforce
    with g A ne f m st show "\<exists>result op.
               getBackendOperations amb localEnv updateEnv joinEnv operationID = Inr result
             \<and> getActiveOperation amb localEnv updateEnv joinEnv operationID = Inr op
             \<and> find (\<lambda>c. \<not> IsCompleted c) result = Some op
             \<and> op \<in> candidates b operationID
             \<and> \<not> IsCompleted op
             \<and> (\<forall>c\<in>candidates b operationID. \<not> IsCompleted c \<longrightarrow> Created c \<le> Created op)"
      by auto
  qed
  have 2: "candidates b operationID \<noteq> {} \<and> (\<forall>c\<in>candidates b operationID. IsCompleted c) \<longrightarrow>
            getActiveOperation amb localEnv updateEnv joinEnv operationID =
              Inl (Wrap (NotFound ''no active operations found'' []))"
  proof
    assume h: "candidates b operationID \<noteq> {} \<and> (\<forall>c\<in>candidates b operationID. IsCompleted c)"
    with st have ne: "result \<noteq> []" by auto
    from h st have "find (\<lambda>c. \<not> IsCompleted c) result = None" by (simp add: find_None_all)
    with A ne show "getActiveOperation amb localEnv updateEnv joinEnv operationID =
              Inl (Wrap (NotFound ''no active operations found'' []))" by simp
  qed
  have 3: "\<forall>op. getActiveOperation amb localEnv updateEnv joinEnv operationID = Inr op \<longrightarrow>
            \<not> IsCompleted op"
    using A by (auto split: if_splits option.splits dest: find_Some_set)
  from 1 2 3 show ?thesis by blast
qed

text \<open>
  In the scenario of the spec the most recent operation \<open>B\<close> is the one not completed, and
  it is returned.
\<close>

theorem getActiveOperation_most_recent_incomplete_witness:
  "backendOperations_List (go [''A'', ''B'']) newBackendOperations (cluster_env [opA])
     (Some (env_of [opB])) None = (None, merged_AB)
   \<and> go_ok (go [''A'', ''B'']) merged_AB []
   \<and> candidates merged_AB [] = {opA, opB}
   \<and> IsCompleted opA \<and> \<not> IsCompleted opB
   \<and> getActiveOperation (go [''A'', ''B'']) (cluster_env [opA]) (Some (env_of [opB])) None []
       = Inr opB"
proof -
  have a: "IsCompleted opA" by (simp add: IsCompleted_def opA_def)
  have b: "\<not> IsCompleted opB" by (simp add: IsCompleted_def opB_def)
  from b have 1: "\<exists>c\<in>candidates merged_AB []. \<not> IsCompleted c"
    by (simp add: candidates_AB)
  from a have 2: "\<And>c. c \<in> candidates merged_AB [] \<Longrightarrow> \<not> IsCompleted c \<Longrightarrow> c = opB"
    by (auto simp: candidates_AB)
  from getActiveOperation_most_recent_incomplete [OF List_AB go_ok_AB] 1
  obtain op where
    "getActiveOperation (go [''A'', ''B'']) (cluster_env [opA]) (Some (env_of [opB])) None [] = Inr op"
    "op \<in> candidates merged_AB []" "\<not> IsCompleted op"
    by blast
  with 2 have "getActiveOperation (go [''A'', ''B'']) (cluster_env [opA]) (Some (env_of [opB])) None []
      = Inr opB" by simp
  with List_AB go_ok_AB candidates_AB a b show ?thesis by simp
qed

section \<open>The dispatch table\<close>

text \<open>
  Claim C2. For the operation the active query resolves, \<^verbatim>\<open>ExecutePhase\<close>,
  \<^verbatim>\<open>RollbackPhase\<close> and \<^verbatim>\<open>completeOperationPlan\<close> are the handler the table of the spec
  names for the operation's type: the result and the effect on the world are that
  handler's, whatever the handlers are. Install executes and rolls back through the
  installer of the parameters, the built-in one when none is injected. Rollback and
  completion of a garbage collection, and every action on any other type, fail with a
  BadParameter error that carries the operation type and names the action, and leave the
  world unchanged.
\<close>

theorem dispatch_table:
  assumes A: "getActiveOperation amb localEnv updateEnv joinEnv (OperationID params) = Inr op"
  shows "(Type op = OperationInstall \<longrightarrow>
            ExecutePhase X amb localEnv updateEnv joinEnv params w =
              Installer_ExecutePhase X (chosen_installer params) localEnv params op w
          \<and> RollbackPhase X amb localEnv updateEnv joinEnv params w =
              Installer_RollbackPhase X (chosen_installer params) localEnv params op w
          \<and> completeOperationPlan X amb localEnv updateEnv joinEnv (OperationID params) w =
              completeInstallPlan X localEnv op w)
       \<and> (Type op = OperationExpand \<longrightarrow>
            ExecutePhase X amb localEnv updateEnv joinEnv params w =
              executeJoinPhase X localEnv joinEnv params op w
          \<and> RollbackPhase X amb localEnv updateEnv joinEnv params w =
              rollbackJoinPhase X localEnv joinEnv params op w
          \<and> completeOperationPlan X amb localEnv updateEnv joinEnv (OperationID params) w =
              completeJoinPlan X localEnv joinEnv op w)
       \<and> (Type op = OperationUpdate \<longrightarrow>
            ExecutePhase X amb localEnv updateEnv joinEnv params w =
              executeUpdatePhase X localEnv updateEnv params op w
          \<and> RollbackPhase X amb localEnv updateEnv joinEnv params w =
              rollbackUpdatePhase X localEnv updateEnv params op w
          \<and> completeOperationPlan X amb localEnv updateEnv joinEnv (OperationID params) w =
              completeUpdatePlan X localEnv updateEnv op w)
       \<and> (Type op = OperationUpdateRuntimeEnviron \<longrightarrow>
            ExecutePhase X amb localEnv updateEnv joinEnv params w =
              executeEnvironPhase X localEnv updateEnv params op w
          \<and> RollbackPhase X amb localEnv updateEnv joinEnv params w =
              rollbackEnvironPhase X localEnv updateEnv params op w
          \<and> completeOperationPlan X amb localEnv updateEnv joinEnv (OperationID params) w =
              completeEnvironPlan X localEnv updateEnv op w)
       \<and> (Type op = OperationUpdateConfig \<longrightarrow>
            ExecutePhase X amb localEnv updateEnv joinEnv params w =
              executeConfigPhase X localEnv updateEnv params op w
          \<and> RollbackPhase X amb localEnv updateEnv joinEnv params w =
              rollbackConfigPhase X localEnv updateEnv params op w
          \<and> completeOperationPlan X amb localEnv updateEnv joinEnv (OperationID params) w =
              completeConfigPlan X localEnv updateEnv op w)
       \<and> (Type op = OperationGarbageCollect \<longrightarrow>
            ExecutePhase X amb localEnv updateEnv joinEnv params w =
              executeGarbageCollectPhase X localEnv params op w
          \<and> RollbackPhase X amb localEnv updateEnv joinEnv params w =
              (Some (unsupported ''rollback'' OperationGarbageCollect), w)
          \<and> completeOperationPlan X amb localEnv updateEnv joinEnv (OperationID params) w =
              (Some (unsupported ''completion'' OperationGarbageCollect), w))
       \<and> (\<forall>t. Type op = OperationOther t \<longrightarrow>
            ExecutePhase X amb localEnv updateEnv joinEnv params w =
              (Some (unsupported ''execution'' (OperationOther t)), w)
          \<and> RollbackPhase X amb localEnv updateEnv joinEnv params w =
              (Some (unsupported ''rollback'' (OperationOther t)), w)
          \<and> completeOperationPlan X amb localEnv updateEnv joinEnv (OperationID params) w =
              (Some (unsupported ''completion'' (OperationOther t)), w))
       \<and> (Installer params = None \<longrightarrow>
            Installer_ExecutePhase X (chosen_installer params) localEnv params op =
              wrapped (executeInstallPhase X localEnv params op)
          \<and> Installer_RollbackPhase X (chosen_installer params) localEnv params op =
              wrapped (rollbackInstallPhase X localEnv params op))
       \<and> (\<forall>i. Installer params = Some (injectedInstaller i) \<longrightarrow>
            Installer_ExecutePhase X (chosen_installer params) localEnv params op =
              injectedExecutePhase X i localEnv params op
          \<and> Installer_RollbackPhase X (chosen_installer params) localEnv params op =
              injectedRollbackPhase X i localEnv params op)
       \<and> IsBadParameter (unsupported action (Type op))"
proof -
  note defs = ExecutePhase_def RollbackPhase_def completeOperationPlan_def A chosen_installer_def
    unsupported_def
  have 1: "Type op = OperationInstall \<longrightarrow>
            ExecutePhase X amb localEnv updateEnv joinEnv params w =
              Installer_ExecutePhase X (chosen_installer params) localEnv params op w
          \<and> RollbackPhase X amb localEnv updateEnv joinEnv params w =
              Installer_RollbackPhase X (chosen_installer params) localEnv params op w
          \<and> completeOperationPlan X amb localEnv updateEnv joinEnv (OperationID params) w =
              completeInstallPlan X localEnv op w"
    by (simp add: defs)
  have 2: "Type op = OperationExpand \<longrightarrow>
            ExecutePhase X amb localEnv updateEnv joinEnv params w =
              executeJoinPhase X localEnv joinEnv params op w
          \<and> RollbackPhase X amb localEnv updateEnv joinEnv params w =
              rollbackJoinPhase X localEnv joinEnv params op w
          \<and> completeOperationPlan X amb localEnv updateEnv joinEnv (OperationID params) w =
              completeJoinPlan X localEnv joinEnv op w"
    by (simp add: defs)
  have 3: "Type op = OperationUpdate \<longrightarrow>
            ExecutePhase X amb localEnv updateEnv joinEnv params w =
              executeUpdatePhase X localEnv updateEnv params op w
          \<and> RollbackPhase X amb localEnv updateEnv joinEnv params w =
              rollbackUpdatePhase X localEnv updateEnv params op w
          \<and> completeOperationPlan X amb localEnv updateEnv joinEnv (OperationID params) w =
              completeUpdatePlan X localEnv updateEnv op w"
    by (simp add: defs)
  have 4: "Type op = OperationUpdateRuntimeEnviron \<longrightarrow>
            ExecutePhase X amb localEnv updateEnv joinEnv params w =
              executeEnvironPhase X localEnv updateEnv params op w
          \<and> RollbackPhase X amb localEnv updateEnv joinEnv params w =
              rollbackEnvironPhase X localEnv updateEnv params op w
          \<and> completeOperationPlan X amb localEnv updateEnv joinEnv (OperationID params) w =
              completeEnvironPlan X localEnv updateEnv op w"
    by (simp add: defs)
  have 5: "Type op = OperationUpdateConfig \<longrightarrow>
            ExecutePhase X amb localEnv updateEnv joinEnv params w =
              executeConfigPhase X localEnv updateEnv params op w
          \<and> RollbackPhase X amb localEnv updateEnv joinEnv params w =
              rollbackConfigPhase X localEnv updateEnv params op w
          \<and> completeOperationPlan X amb localEnv updateEnv joinEnv (OperationID params) w =
              completeConfigPlan X localEnv updateEnv op w"
    by (simp add: defs)
  have 6: "Type op = OperationGarbageCollect \<longrightarrow>
            ExecutePhase X amb localEnv updateEnv joinEnv params w =
              executeGarbageCollectPhase X localEnv params op w
          \<and> RollbackPhase X amb localEnv updateEnv joinEnv params w =
              (Some (unsupported ''rollback'' OperationGarbageCollect), w)
          \<and> completeOperationPlan X amb localEnv updateEnv joinEnv (OperationID params) w =
              (Some (unsupported ''completion'' OperationGarbageCollect), w)"
    by (simp add: defs)
  have 7: "\<forall>t. Type op = OperationOther t \<longrightarrow>
            ExecutePhase X amb localEnv updateEnv joinEnv params w =
              (Some (unsupported ''execution'' (OperationOther t)), w)
          \<and> RollbackPhase X amb localEnv updateEnv joinEnv params w =
              (Some (unsupported ''rollback'' (OperationOther t)), w)
          \<and> completeOperationPlan X amb localEnv updateEnv joinEnv (OperationID params) w =
              (Some (unsupported ''completion'' (OperationOther t)), w)"
    by (simp add: defs)
  have 8: "Installer params = None \<longrightarrow>
            Installer_ExecutePhase X (chosen_installer params) localEnv params op =
              wrapped (executeInstallPhase X localEnv params op)
          \<and> Installer_RollbackPhase X (chosen_installer params) localEnv params op =
              wrapped (rollbackInstallPhase X localEnv params op)"
    by (simp add: chosen_installer_def Installer_ExecutePhase_def Installer_RollbackPhase_def)
  have 9: "\<forall>i. Installer params = Some (injectedInstaller i) \<longrightarrow>
            Installer_ExecutePhase X (chosen_installer params) localEnv params op =
              injectedExecutePhase X i localEnv params op
          \<and> Installer_RollbackPhase X (chosen_installer params) localEnv params op =
              injectedRollbackPhase X i localEnv params op"
    by (simp add: chosen_installer_def Installer_ExecutePhase_def Installer_RollbackPhase_def)
  have 10: "IsBadParameter (unsupported action (Type op))"
    by (simp add: unsupported_def)
  from 1 2 3 4 5 6 7 8 9 10 show ?thesis by (intro conjI)
qed

text \<open>
  With the recording handlers: executing a phase of the running update \<open>B\<close> calls the update
  handler and no other; rolling back a garbage collection calls none.
\<close>

theorem dispatch_table_witness:
  "getActiveOperation (go [''A'', ''B'']) (cluster_env [opA]) (Some (env_of [opB])) None
     (OperationID (phase ''/init'' [])) = Inr opB
   \<and> Type opB = OperationUpdate
   \<and> ExecutePhase spies (go [''A'', ''B'']) (cluster_env [opA]) (Some (env_of [opB])) None
       (phase ''/init'' []) [] = (None, [''executeUpdatePhase''])
   \<and> getActiveOperation (go [''G'']) (cluster_env [opG]) None None
       (OperationID (phase ''/gc'' [])) = Inr opG
   \<and> Type opG = OperationGarbageCollect
   \<and> RollbackPhase spies (go [''G'']) (cluster_env [opG]) None None (phase ''/gc'' []) [] =
       (Some (BadParameter ''operation type %q does not support plan rollback''
                [ArgType OperationGarbageCollect]), [])"
proof -
  have a: "getActiveOperation (go [''A'', ''B'']) (cluster_env [opA]) (Some (env_of [opB])) None
     (OperationID (phase ''/init'' [])) = Inr opB"
    by (simp add: phase_def active_AB)
  have ta: "Type opB = OperationUpdate" by (simp add: opB_def)
  have g: "getActiveOperation (go [''G'']) (cluster_env [opG]) None None
       (OperationID (phase ''/gc'' [])) = Inr opG"
    by (simp add: phase_def active_G)
  have tg: "Type opG = OperationGarbageCollect" by (simp add: opG_def)
  from dispatch_table [OF a, of spies "[]"] ta
  have "ExecutePhase spies (go [''A'', ''B'']) (cluster_env [opA]) (Some (env_of [opB])) None
       (phase ''/init'' []) [] =
       executeUpdatePhase spies (cluster_env [opA]) (Some (env_of [opB])) (phase ''/init'' []) opB []"
    by blast
  then have 1: "ExecutePhase spies (go [''A'', ''B'']) (cluster_env [opA]) (Some (env_of [opB])) None
       (phase ''/init'' []) [] = (None, [''executeUpdatePhase''])"
    by (simp add: spies_def spy_def)
  from dispatch_table [OF g, of spies "[]"] tg
  have "RollbackPhase spies (go [''G'']) (cluster_env [opG]) None None (phase ''/gc'' []) [] =
       (Some (unsupported ''rollback'' OperationGarbageCollect), [])"
    by blast
  then have 2: "RollbackPhase spies (go [''G'']) (cluster_env [opG]) None None (phase ''/gc'' []) [] =
       (Some (BadParameter ''operation type %q does not support plan rollback''
                [ArgType OperationGarbageCollect]), [])"
    by (simp add: unsupported_def)
  from a ta 1 g tg 2 show ?thesis by (intro conjI)
qed

section \<open>Resuming\<close>

text \<open>
  Claim C3. \<^verbatim>\<open>ResumeOperation\<close> calls \<^verbatim>\<open>ExecutePhase\<close> with the phase ID replaced by the
  root phase (and the installer defaulted). If that returns nil, so does
  \<^verbatim>\<open>ResumeOperation\<close>. If it fails with an error of which \<^verbatim>\<open>trace.IsNotFound\<close> holds,
  \<^verbatim>\<open>ResumeOperation\<close> calls \<^verbatim>\<open>Installer.Restart\<close> (of the built-in installer, which
  starts the installation, when none was injected) and returns what the restart returns
  in place of that error: nil when it returns nil, its error (wrapped) when it fails,
  with the world as the restart left it. Any other failure is returned wrapped, which
  changes neither the error underneath nor its kind. In particular, when the active
  query finds no operation, no handler has run and the installation is restarted.
\<close>

theorem ResumeOperation_restarts_on_NotFound:
  assumes i: "installer = chosen_installer params"
      and p: "params' = params\<lparr>Installer := Some installer, PhaseID := RootPhase X\<rparr>"
      and E: "ExecutePhase X amb localEnv updateEnv joinEnv params' w = (r, w')"
  shows "PhaseID params' = RootPhase X \<and> OperationID params' = OperationID params
       \<and> (r = None \<longrightarrow>
            ResumeOperation X amb localEnv updateEnv joinEnv params w = (None, w'))
       \<and> (\<forall>err. r = Some err \<and> IsNotFound err \<longrightarrow>
            ResumeOperation X amb localEnv updateEnv joinEnv params w =
              wrapped (Installer_Restart X installer localEnv) w'
          \<and> (\<forall>w''. Installer_Restart X installer localEnv w' = (None, w'') \<longrightarrow>
                ResumeOperation X amb localEnv updateEnv joinEnv params w = (None, w''))
          \<and> (\<forall>err' w''. Installer_Restart X installer localEnv w' = (Some err', w'') \<longrightarrow>
                ResumeOperation X amb localEnv updateEnv joinEnv params w = (Some (Wrap err'), w'')))
       \<and> (\<forall>err. r = Some err \<and> \<not> IsNotFound err \<longrightarrow>
            ResumeOperation X amb localEnv updateEnv joinEnv params w = (Some (Wrap err), w')
          \<and> Unwrap (Wrap err) = Unwrap err
          \<and> \<not> IsNotFound (Wrap err)
          \<and> IsBadParameter (Wrap err) = IsBadParameter err)
       \<and> (\<forall>err. getActiveOperation amb localEnv updateEnv joinEnv (OperationID params) = Inl err
                \<and> IsNotFound err \<longrightarrow>
            w' = w
          \<and> ResumeOperation X amb localEnv updateEnv joinEnv params w =
              wrapped (Installer_Restart X installer localEnv) w
          \<and> (\<forall>w''. Installer_Restart X installer localEnv w = (None, w'') \<longrightarrow>
                ResumeOperation X amb localEnv updateEnv joinEnv params w = (None, w''))
          \<and> (\<forall>err' w''. Installer_Restart X installer localEnv w = (Some err', w'') \<longrightarrow>
                ResumeOperation X amb localEnv updateEnv joinEnv params w = (Some (Wrap err'), w'')))
       \<and> (Installer params = None \<longrightarrow>
            Installer_Restart X installer localEnv = wrapped (startInstall X localEnv)
          \<and> (\<forall>v v'. startInstall X localEnv v = (None, v') \<longrightarrow>
                Installer_Restart X installer localEnv v = (None, v'))
          \<and> (\<forall>v err' v'. startInstall X localEnv v = (Some err', v') \<longrightarrow>
                Installer_Restart X installer localEnv v = (Some (Wrap err'), v')))
       \<and> (\<forall>j. Installer params = Some (injectedInstaller j) \<longrightarrow>
            Installer_Restart X installer localEnv = injectedRestart X j localEnv)"
proof -
  have R: "ResumeOperation X amb localEnv updateEnv joinEnv params w =
             (case r of
                None \<Rightarrow> (None, w')
              | Some err \<Rightarrow>
                  (if \<not> IsNotFound err then (Some (Wrap err), w')
                   else wrapped (Installer_Restart X installer localEnv) w'))"
    using E unfolding ResumeOperation_def Let_def i p chosen_installer_def by simp
  have W0: "wrapped f v = (None, v')" if "f v = (None, v')" for f :: "'b action" and v v'
    using that by (simp add: wrapped_def WrapNil_def)
  have W1: "wrapped f v = (Some (Wrap e), v')" if "f v = (Some e, v')"
    for f :: "'b action" and v v' e
    using that by (simp add: wrapped_def WrapNil_def)
  have 0: "PhaseID params' = RootPhase X" and 00: "OperationID params' = OperationID params"
    by (simp_all add: p)
  have 1: "r = None \<longrightarrow>
            ResumeOperation X amb localEnv updateEnv joinEnv params w = (None, w')"
    by (simp add: R)
  have 2: "\<forall>err. r = Some err \<and> IsNotFound err \<longrightarrow>
            ResumeOperation X amb localEnv updateEnv joinEnv params w =
              wrapped (Installer_Restart X installer localEnv) w'
          \<and> (\<forall>w''. Installer_Restart X installer localEnv w' = (None, w'') \<longrightarrow>
                ResumeOperation X amb localEnv updateEnv joinEnv params w = (None, w''))
          \<and> (\<forall>err' w''. Installer_Restart X installer localEnv w' = (Some err', w'') \<longrightarrow>
                ResumeOperation X amb localEnv updateEnv joinEnv params w = (Some (Wrap err'), w''))"
    by (simp add: R W0 W1)
  have 3: "\<forall>err. r = Some err \<and> \<not> IsNotFound err \<longrightarrow>
            ResumeOperation X amb localEnv updateEnv joinEnv params w = (Some (Wrap err), w')
          \<and> Unwrap (Wrap err) = Unwrap err
          \<and> \<not> IsNotFound (Wrap err)
          \<and> IsBadParameter (Wrap err) = IsBadParameter err"
    by (simp add: R)
  have 4: "\<forall>err. getActiveOperation amb localEnv updateEnv joinEnv (OperationID params) = Inl err
                \<and> IsNotFound err \<longrightarrow>
            w' = w
          \<and> ResumeOperation X amb localEnv updateEnv joinEnv params w =
              wrapped (Installer_Restart X installer localEnv) w
          \<and> (\<forall>w''. Installer_Restart X installer localEnv w = (None, w'') \<longrightarrow>
                ResumeOperation X amb localEnv updateEnv joinEnv params w = (None, w''))
          \<and> (\<forall>err' w''. Installer_Restart X installer localEnv w = (Some err', w'') \<longrightarrow>
                ResumeOperation X amb localEnv updateEnv joinEnv params w = (Some (Wrap err'), w''))"
  proof (intro allI impI)
    fix err
    assume h: "getActiveOperation amb localEnv updateEnv joinEnv (OperationID params) = Inl err
                \<and> IsNotFound err"
    then have "ExecutePhase X amb localEnv updateEnv joinEnv params' w = (Some (Wrap err), w)"
      by (simp add: ExecutePhase_def p)
    with E have "r = Some (Wrap err)" "w' = w" by simp_all
    with h show "w' = w
          \<and> ResumeOperation X amb localEnv updateEnv joinEnv params w =
              wrapped (Installer_Restart X installer localEnv) w
          \<and> (\<forall>w''. Installer_Restart X installer localEnv w = (None, w'') \<longrightarrow>
                ResumeOperation X amb localEnv updateEnv joinEnv params w = (None, w''))
          \<and> (\<forall>err' w''. Installer_Restart X installer localEnv w = (Some err', w'') \<longrightarrow>
                ResumeOperation X amb localEnv updateEnv joinEnv params w = (Some (Wrap err'), w''))"
      by (simp add: R W0 W1)
  qed
  have 5: "Installer params = None \<longrightarrow>
            Installer_Restart X installer localEnv = wrapped (startInstall X localEnv)
          \<and> (\<forall>v v'. startInstall X localEnv v = (None, v') \<longrightarrow>
                Installer_Restart X installer localEnv v = (None, v'))
          \<and> (\<forall>v err' v'. startInstall X localEnv v = (Some err', v') \<longrightarrow>
                Installer_Restart X installer localEnv v = (Some (Wrap err'), v'))"
    by (simp add: i chosen_installer_def Installer_Restart_def W0 W1)
  have 6: "\<forall>j. Installer params = Some (injectedInstaller j) \<longrightarrow>
            Installer_Restart X installer localEnv = injectedRestart X j localEnv"
    by (simp add: i chosen_installer_def Installer_Restart_def)
  from 0 00 1 2 3 4 5 6 show ?thesis by (intro conjI)
qed

text \<open>
  With no operation in any source and the recording handlers, resuming starts the
  installation and returns nil, as the restart does.
\<close>

theorem ResumeOperation_restarts_on_NotFound_witness:
  "getActiveOperation (go []) (wizard_env [] []) None None (OperationID (phase ''/init'' []))
     = Inl (NotFound ''no operation found'' [])
   \<and> ExecutePhase spies (go []) (wizard_env [] []) None None
       ((phase ''/init'' [])\<lparr>Installer := Some defaultInstaller, PhaseID := RootPhase spies\<rparr>) []
       = (Some (Wrap (NotFound ''no operation found'' [])), [])
   \<and> Installer_Restart spies defaultInstaller (wizard_env [] []) [] = (None, [''startInstall''])
   \<and> ResumeOperation spies (go []) (wizard_env [] []) None None (phase ''/init'' []) []
       = (None, [''startInstall''])"
proof -
  have i: "defaultInstaller = chosen_installer (phase ''/init'' [])"
    by (simp add: chosen_installer_def phase_def)
  have a: "getActiveOperation (go []) (wizard_env [] []) None None (OperationID (phase ''/init'' []))
     = Inl (NotFound ''no operation found'' [])"
    by (simp add: phase_def active_nothing)
  have E: "ExecutePhase spies (go []) (wizard_env [] []) None None
       ((phase ''/init'' [])\<lparr>Installer := Some defaultInstaller, PhaseID := RootPhase spies\<rparr>) []
       = (Some (Wrap (NotFound ''no operation found'' [])), [])"
    using a by (simp add: ExecutePhase_def phase_def)
  have n: "IsNotFound (Wrap (NotFound ''no operation found'' []))" by simp
  have s: "Installer_Restart spies defaultInstaller (wizard_env [] []) [] = (None, [''startInstall''])"
    by (simp add: Installer_Restart_def wrapped_def WrapNil_def spies_def spy_def)
  from ResumeOperation_restarts_on_NotFound [OF i refl E] n s
  have "ResumeOperation spies (go []) (wizard_env [] []) None None (phase ''/init'' []) []
       = (None, [''startInstall''])"
    by blast
  with a E s show ?thesis by simp
qed

section \<open>When the install sources are consulted\<close>

text \<open>
  Claim C4. The Cluster Operation Pointer is absent exactly when the cluster environment
  could not be created, or its backend failed or returned no operation. In every pass the
  remote environment is read, and any install source at all is read, if and only if the
  pointer is absent or points to an Install operation; when the pointer exists with
  another type, no install source is read.
\<close>

theorem install_sources_consulted_iff:
  assumes "backendOperations_List amb newBackendOperations localEnv updateEnv joinEnv = (err, b)"
  shows "(clusterOperation b = None \<longleftrightarrow>
            isl (NewClusterEnvironment localEnv)
          \<or> (\<exists>clusterBackend. NewClusterEnvironment localEnv = Inr clusterBackend
               \<and> (isl (GetOperations clusterBackend) \<or> GetOperations clusterBackend = Inr [])))
       \<and> (QueryRemoteEnvironment \<in> set (queried b) \<longleftrightarrow>
            clusterOperation b = None
          \<or> (\<exists>op. clusterOperation b = Some op \<and> Type op = OperationInstall))
       \<and> (set (queried b) \<inter> install_queries \<noteq> {} \<longleftrightarrow>
            clusterOperation b = None
          \<or> (\<exists>op. clusterOperation b = Some op \<and> Type op = OperationInstall))
       \<and> ((\<exists>op. clusterOperation b = Some op \<and> Type op \<noteq> OperationInstall) \<longrightarrow>
            set (queried b) \<inter> install_queries = {})"
proof -
  let ?r3 = "before_install localEnv updateEnv joinEnv"
  have b: "b = snd (backendOperations_List amb newBackendOperations localEnv updateEnv joinEnv)"
    using assms by simp
  have p: "clusterOperation b = cluster_pointer localEnv"
    unfolding b by (rule List_pointer)
  have c: "install_consulted localEnv \<longleftrightarrow>
             clusterOperation b = None
           \<or> (\<exists>op. clusterOperation b = Some op \<and> Type op = OperationInstall)"
    by (simp add: install_consulted_def p split: option.splits)
  have 1: "clusterOperation b = None \<longleftrightarrow>
            isl (NewClusterEnvironment localEnv)
          \<or> (\<exists>clusterBackend. NewClusterEnvironment localEnv = Inr clusterBackend
               \<and> (isl (GetOperations clusterBackend) \<or> GetOperations clusterBackend = Inr []))"
    unfolding p
    by (auto simp: cluster_pointer_def cluster_result_def split: sum.splits list.splits)
  have q0: "set (queried ?r3) \<inter> install_queries = {}" by (rule before_install_queried)
  have r: "QueryRemoteEnvironment \<in> install_queries" by (simp add: install_queries_def)
  have 2: "QueryRemoteEnvironment \<in> set (queried b) \<longleftrightarrow> install_consulted localEnv"
  proof (cases "install_consulted localEnv")
    case True
    then have "b = snd (List_install amb ?r3 localEnv)" by (simp add: b List_unfold)
    moreover obtain qs where
      "queried (snd (List_install amb ?r3 localEnv)) = queried ?r3 @ QueryRemoteEnvironment # qs"
      by (rule List_install_queried)
    ultimately show ?thesis using True by simp
  next
    case False
    then have "b = ?r3" by (simp add: b List_unfold)
    with q0 r False show ?thesis by auto
  qed
  have 3: "set (queried b) \<inter> install_queries \<noteq> {} \<longleftrightarrow> install_consulted localEnv"
  proof (cases "install_consulted localEnv")
    case True
    with 2 r show ?thesis by auto
  next
    case False
    then have "b = ?r3" by (simp add: b List_unfold)
    with q0 False show ?thesis by simp
  qed
  have 4: "(\<exists>op. clusterOperation b = Some op \<and> Type op \<noteq> OperationInstall) \<longrightarrow>
            set (queried b) \<inter> install_queries = {}"
    using 3 c by auto
  from 1 2 3 4 c show ?thesis by simp
qed

text \<open>In the scenario of the spec the pointer is the update \<open>A\<close>, and no install source is read.\<close>

theorem install_sources_consulted_iff_witness:
  "backendOperations_List (go [''A'', ''B'']) newBackendOperations (cluster_env [opA])
     (Some (env_of [opB])) None = (None, merged_AB)
   \<and> clusterOperation merged_AB = Some opA \<and> Type opA \<noteq> OperationInstall
   \<and> set (queried merged_AB) \<inter> install_queries = {}"
proof -
  have "clusterOperation merged_AB = Some opA \<and> Type opA \<noteq> OperationInstall"
    by (simp add: merged_AB_def opA_def)
  with install_sources_consulted_iff [OF List_AB] List_AB show ?thesis by blast
qed

section \<open>The install sources\<close>

text \<open>
  Claim C5, as the code has it. When the install sources are consulted, the remote
  environment is read first. If the wizard is connected, the operator's last operation
  is merged when it can be fetched, the local wizard is not read, and \<^verbatim>\<open>List\<close> succeeds.
  Otherwise the local wizard environment is opened: if that fails, \<^verbatim>\<open>List\<close> fails with
  the error wrapped as "failed to read local wizard environment", and
  \<^verbatim>\<open>getBackendOperations\<close> returns the error and no operation; if it opens, the last
  operation of its backend is merged when it can be fetched, and \<^verbatim>\<open>List\<close> succeeds.
\<close>

theorem install_sources_order_and_failure:
  assumes consulted: "isActiveInstallOperation (before_install localEnv updateEnv joinEnv)"
      and L: "backendOperations_List amb newBackendOperations localEnv updateEnv joinEnv = (err, b)"
  shows "(\<exists>qs. queried b =
                 queried (before_install localEnv updateEnv joinEnv) @ QueryRemoteEnvironment # qs)
       \<and> (\<forall>operator clusterKey. wizard_connected amb = Some (operator, clusterKey) \<longrightarrow>
              err = None
            \<and> QueryLocalWizardEnvironment \<notin> set (queried b)
            \<and> QueryLocalWizardBackend \<notin> set (queried b)
            \<and> (case OperatorGetLastOperation operator clusterKey of
                  Inr op \<Rightarrow>
                    operations b =
                      (operations (before_install localEnv updateEnv joinEnv))(ID op \<mapsto> op)
                | Inl e \<Rightarrow> operations b = operations (before_install localEnv updateEnv joinEnv)))
       \<and> (wizard_connected amb = None \<longrightarrow>
              QueryLocalWizardEnvironment \<in> set (queried b)
            \<and> (case NewLocalWizardEnvironment localEnv of
                  Inl e \<Rightarrow>
                    err = Some (WrapMessage e ''failed to read local wizard environment'')
                  \<and> getBackendOperations amb localEnv updateEnv joinEnv operationID =
                      Inl (Wrap (WrapMessage e ''failed to read local wizard environment''))
                | Inr wizardBackend \<Rightarrow>
                    err = None
                  \<and> (case GetLastOperation wizardBackend of
                        Inr op \<Rightarrow>
                          operations b =
                            (operations (before_install localEnv updateEnv joinEnv))(ID op \<mapsto> op)
                      | Inl e \<Rightarrow>
                          operations b = operations (before_install localEnv updateEnv joinEnv))))"
proof -
  let ?r3 = "before_install localEnv updateEnv joinEnv"
  from consulted have c: "install_consulted localEnv"
    by (simp add: isActiveInstallOperation_before_install)
  with L have LI: "List_install amb ?r3 localEnv = (err, b)" by (simp add: List_unfold)
  then have b: "b = snd (List_install amb ?r3 localEnv)"
    and e: "err = fst (List_install amb ?r3 localEnv)" by simp_all
  have q0: "set (queried ?r3) \<inter> install_queries = {}" by (rule before_install_queried)
  then have nq: "QueryLocalWizardEnvironment \<notin> set (queried ?r3)"
    "QueryLocalWizardBackend \<notin> set (queried ?r3)"
    by (auto simp: install_queries_def)
  obtain qs where
    qs: "queried b = queried ?r3 @ QueryRemoteEnvironment # qs"
    and qo: "QueryOperatorLastOperation \<in> set qs \<longleftrightarrow> wizard_connected amb \<noteq> None"
    and qw: "QueryLocalWizardEnvironment \<in> set qs \<longleftrightarrow> wizard_connected amb = None"
    and qb: "QueryLocalWizardBackend \<in> set qs \<longleftrightarrow>
               wizard_connected amb = None \<and> \<not> isl (NewLocalWizardEnvironment localEnv)"
    unfolding b by (rule List_install_queried)
  have ops: "operations b = merge_into (install_result amb localEnv) (operations ?r3)"
    unfolding b by (rule List_install_operations)
  have 1: "\<exists>qs. queried b = queried ?r3 @ QueryRemoteEnvironment # qs" using qs by blast
  have 2: "\<forall>operator clusterKey. wizard_connected amb = Some (operator, clusterKey) \<longrightarrow>
              err = None
            \<and> QueryLocalWizardEnvironment \<notin> set (queried b)
            \<and> QueryLocalWizardBackend \<notin> set (queried b)
            \<and> (case OperatorGetLastOperation operator clusterKey of
                  Inr op \<Rightarrow> operations b = (operations ?r3)(ID op \<mapsto> op)
                | Inl e \<Rightarrow> operations b = operations ?r3)"
  proof (intro allI impI)
    fix operator clusterKey
    assume w: "wizard_connected amb = Some (operator, clusterKey)"
    have "err = None" by (simp add: e List_install_error w)
    moreover have "QueryLocalWizardEnvironment \<notin> set (queried b)"
      "QueryLocalWizardBackend \<notin> set (queried b)"
      using qs qw qb nq w by simp_all
    moreover have "case OperatorGetLastOperation operator clusterKey of
                  Inr op \<Rightarrow> operations b = (operations ?r3)(ID op \<mapsto> op)
                | Inl e \<Rightarrow> operations b = operations ?r3"
      by (simp add: ops install_result_def w split: sum.splits)
    ultimately show "err = None
            \<and> QueryLocalWizardEnvironment \<notin> set (queried b)
            \<and> QueryLocalWizardBackend \<notin> set (queried b)
            \<and> (case OperatorGetLastOperation operator clusterKey of
                  Inr op \<Rightarrow> operations b = (operations ?r3)(ID op \<mapsto> op)
                | Inl e \<Rightarrow> operations b = operations ?r3)" by simp
  qed
  have 3: "wizard_connected amb = None \<longrightarrow>
              QueryLocalWizardEnvironment \<in> set (queried b)
            \<and> (case NewLocalWizardEnvironment localEnv of
                  Inl e \<Rightarrow>
                    err = Some (WrapMessage e ''failed to read local wizard environment'')
                  \<and> getBackendOperations amb localEnv updateEnv joinEnv operationID =
                      Inl (Wrap (WrapMessage e ''failed to read local wizard environment''))
                | Inr wizardBackend \<Rightarrow>
                    err = None
                  \<and> (case GetLastOperation wizardBackend of
                        Inr op \<Rightarrow> operations b = (operations ?r3)(ID op \<mapsto> op)
                      | Inl e \<Rightarrow> operations b = operations ?r3))"
  proof
    assume w: "wizard_connected amb = None"
    have "QueryLocalWizardEnvironment \<in> set (queried b)" using qs qw w by simp
    moreover have "case NewLocalWizardEnvironment localEnv of
                  Inl e \<Rightarrow>
                    err = Some (WrapMessage e ''failed to read local wizard environment'')
                  \<and> getBackendOperations amb localEnv updateEnv joinEnv operationID =
                      Inl (Wrap (WrapMessage e ''failed to read local wizard environment''))
                | Inr wizardBackend \<Rightarrow>
                    err = None
                  \<and> (case GetLastOperation wizardBackend of
                        Inr op \<Rightarrow> operations b = (operations ?r3)(ID op \<mapsto> op)
                      | Inl e \<Rightarrow> operations b = operations ?r3)"
    proof (cases "NewLocalWizardEnvironment localEnv")
      case (Inl x)
      then have "err = Some (WrapMessage x ''failed to read local wizard environment'')"
        by (simp add: e List_install_error w)
      with L Inl show ?thesis by (simp add: getBackendOperations_def)
    next
      case (Inr wb)
      then have "err = None" by (simp add: e List_install_error w)
      with Inr show ?thesis by (simp add: ops install_result_def w split: sum.splits)
    qed
    ultimately show "QueryLocalWizardEnvironment \<in> set (queried b)
            \<and> (case NewLocalWizardEnvironment localEnv of
                  Inl e \<Rightarrow>
                    err = Some (WrapMessage e ''failed to read local wizard environment'')
                  \<and> getBackendOperations amb localEnv updateEnv joinEnv operationID =
                      Inl (Wrap (WrapMessage e ''failed to read local wizard environment''))
                | Inr wizardBackend \<Rightarrow>
                    err = None
                  \<and> (case GetLastOperation wizardBackend of
                        Inr op \<Rightarrow> operations b = (operations ?r3)(ID op \<mapsto> op)
                      | Inl e \<Rightarrow> operations b = operations ?r3))" by simp
  qed
  from 1 2 3 show ?thesis by (intro conjI)
qed

text \<open>
  An install operation the cluster reports completed while the local wizard still runs
  it: the wizard's version is merged over the cluster's.
\<close>

theorem install_sources_order_and_failure_witness:
  "isActiveInstallOperation (before_install (wizard_env [opI] [opI_wizard]) None None)
   \<and> wizard_connected (go []) = None
   \<and> NewLocalWizardEnvironment (wizard_env [opI] [opI_wizard]) = Inr (backend_of [opI_wizard])
   \<and> fst (backendOperations_List (go []) newBackendOperations (wizard_env [opI] [opI_wizard])
            None None) = None
   \<and> operations (snd (backendOperations_List (go []) newBackendOperations
                         (wizard_env [opI] [opI_wizard]) None None)) =
       (operations (before_install (wizard_env [opI] [opI_wizard]) None None))(''I'' \<mapsto> opI_wizard)"
proof -
  obtain err b where L:
    "backendOperations_List (go []) newBackendOperations (wizard_env [opI] [opI_wizard]) None None
       = (err, b)"
    by (rule prod.exhaust)
  have c: "isActiveInstallOperation (before_install (wizard_env [opI] [opI_wizard]) None None)"
    by (simp add: before_install_I isActiveInstallOperation_def) (simp add: opI_def)
  have w: "wizard_connected (go []) = None"
    by (simp add: wizard_connected_def go_def)
  have n: "NewLocalWizardEnvironment (wizard_env [opI] [opI_wizard]) = Inr (backend_of [opI_wizard])"
    by (simp add: wizard_env_def)
  have g: "GetLastOperation (backend_of [opI_wizard]) = Inr opI_wizard"
    by (simp add: backend_of_def)
  have i: "ID opI_wizard = ''I''" by (simp add: opI_wizard_def)
  from install_sources_order_and_failure [OF c L, of "[]"] w
  have "case NewLocalWizardEnvironment (wizard_env [opI] [opI_wizard]) of
          Inl e \<Rightarrow>
            err = Some (WrapMessage e ''failed to read local wizard environment'')
          \<and> getBackendOperations (go []) (wizard_env [opI] [opI_wizard]) None None [] =
              Inl (Wrap (WrapMessage e ''failed to read local wizard environment''))
        | Inr wizardBackend \<Rightarrow>
            err = None
          \<and> (case GetLastOperation wizardBackend of
                Inr op \<Rightarrow>
                  operations b =
                    (operations (before_install (wizard_env [opI] [opI_wizard]) None None))
                      (ID op \<mapsto> op)
              | Inl e \<Rightarrow>
                  operations b = operations (before_install (wizard_env [opI] [opI_wizard]) None None))"
    by blast
  then have "err = None \<and> operations b =
      (operations (before_install (wizard_env [opI] [opI_wizard]) None None))(''I'' \<mapsto> opI_wizard)"
    by (simp add: n g i)
  with c w n L show ?thesis by simp
qed

text \<open>
  The claim as stated fails: with the install operation \<open>I\<close> in the cluster backend, no
  remote wizard and no local wizard environment, \<^verbatim>\<open>List\<close> fails, and the operation
  merged so far is lost to the caller.
\<close>

theorem List_fails_without_local_wizard:
  "isActiveInstallOperation (before_install (cluster_env [opI]) None None)
   \<and> fst (backendOperations_List (go []) newBackendOperations (cluster_env [opI]) None None) =
       Some (WrapMessage unreachable ''failed to read local wizard environment'')
   \<and> getBackendOperations (go []) (cluster_env [opI]) None None [] =
       Inl (Wrap (WrapMessage unreachable ''failed to read local wizard environment''))"
  by (simp add: before_install_def getBackendOperations_def scenario_defs List_defs opI_def)

section \<open>Merge order\<close>

text \<open>
  Claim C6, as the code has it. The merged map is the result of merging, in this order,
  the operations of the cluster backend, of the update environment, of the join
  environment and of the install sources, a later operation overwriting an earlier one of
  the same ID: the entry of an ID is the last operation of that sequence with the ID. In
  particular the update environment's version of an operation that the cluster backend
  holds too is the one in the merged map, unless the join environment or an install
  source returns an operation of the same ID.
\<close>

theorem merge_order_later_source_wins:
  assumes L: "backendOperations_List amb newBackendOperations localEnv updateEnv joinEnv = (err, b)"
  shows "operations b =
           merge_into (cluster_part localEnv @ environment_result updateEnv @
                       environment_result joinEnv @ install_part amb localEnv) Map.empty
       \<and> (\<forall>k. operations b k =
                find (\<lambda>op. ID op = k)
                  (rev (cluster_part localEnv @ environment_result updateEnv @
                        environment_result joinEnv @ install_part amb localEnv)))
       \<and> (\<forall>u. u \<in> set (environment_result updateEnv)
              \<and> ID u \<in> ID ` set (cluster_result localEnv)
              \<and> ID u \<notin> ID ` set (environment_result joinEnv)
              \<and> ID u \<notin> ID ` set (install_part amb localEnv)
              \<longrightarrow> operations b (ID u) = Some u)"
proof -
  let ?seq = "cluster_part localEnv @ environment_result updateEnv @
              environment_result joinEnv @ install_part amb localEnv"
  from L have b: "b = snd (backendOperations_List amb newBackendOperations localEnv updateEnv joinEnv)"
    by simp
  have 1: "operations b = merge_into ?seq Map.empty"
    unfolding b by (simp add: List_operations merge_sequence_def)
  have 2: "operations b k = find (\<lambda>op. ID op = k) (rev ?seq)" for k
    unfolding 1 by (simp only: merge_into_last split: option.splits) simp
  have 3: "operations b (ID u) = Some u"
    if u: "u \<in> set (environment_result updateEnv)"
      and j: "ID u \<notin> ID ` set (environment_result joinEnv)"
      and i: "ID u \<notin> ID ` set (install_part amb localEnv)" for u
  proof -
    from u have eu: "environment_result updateEnv = [u]"
      by (auto simp: environment_result_def split: option.splits sum.splits)
    from j have fj: "find (\<lambda>op. ID op = ID u) (rev (environment_result joinEnv)) = None"
      by (simp add: find_None_iff_ID)
    from i have fi: "find (\<lambda>op. ID op = ID u) (rev (install_part amb localEnv)) = None"
      by (simp add: find_None_iff_ID)
    show ?thesis
      unfolding 2 by (simp add: find_append_case fj fi eu)
  qed
  from 1 2 3 show ?thesis by blast
qed

text \<open>The update environment's version of \<open>A\<close> replaces the cluster's.\<close>

theorem merge_order_later_source_wins_witness:
  "opA_update \<in> set (environment_result (Some (env_of [opA_update])))
   \<and> ID opA_update \<in> ID ` set (cluster_result (cluster_env [opA]))
   \<and> ID opA_update \<notin> ID ` set (environment_result None)
   \<and> ID opA_update \<notin> ID ` set (install_part (go []) (cluster_env [opA]))
   \<and> operations (snd (backendOperations_List (go []) newBackendOperations (cluster_env [opA])
                         (Some (env_of [opA_update])) None)) (ID opA_update) = Some opA_update"
proof -
  have 1: "opA_update \<in> set (environment_result (Some (env_of [opA_update])))"
    by (simp add: environment_result_def env_of_def backend_of_def)
  have 2: "ID opA_update \<in> ID ` set (cluster_result (cluster_env [opA]))"
    by (simp add: cluster_result_def cluster_env_def backend_of_def opA_def opA_update_def)
  have 3: "ID opA_update \<notin> ID ` set (environment_result None)"
    by (simp add: environment_result_def)
  have 4: "ID opA_update \<notin> ID ` set (install_part (go []) (cluster_env [opA]))"
    by (simp add: install_part_def install_consulted_def cluster_pointer_def cluster_result_def
        cluster_env_def backend_of_def opA_def)
  from merge_order_later_source_wins [OF List_A_update [of "[]"]] 1 2 3 4
  have "operations \<lparr>operations = [''A'' \<mapsto> opA_update], clusterOperation = Some opA,
           queried = [QueryClusterEnvironment, QueryClusterOperations, QueryUpdateBackend]\<rparr>
          (ID opA_update) = Some opA_update"
    by blast
  with 1 2 3 4 show ?thesis by (simp add: List_A_update)
qed

text \<open>
  The claim as stated fails: when the join environment returns an operation of the ID
  \<open>A\<close> as well, its version is the one in the merged map, not the update
  environment's.
\<close>

theorem update_version_overwritten_by_join:
  "NewClusterEnvironment (cluster_env [opA]) = Inr (backend_of [opA])
   \<and> GetOperations (backend_of [opA]) = Inr [opA]
   \<and> GetLastOperation (Backend (env_of [opA_update])) = Inr opA_update
   \<and> GetLastOperation (Backend (env_of [opA_join])) = Inr opA_join
   \<and> ID opA_update = ID opA
   \<and> operations (snd (backendOperations_List (go []) newBackendOperations (cluster_env [opA])
                         (Some (env_of [opA_update])) (Some (env_of [opA_join])))) (ID opA)
       = Some opA_join
   \<and> opA_join \<noteq> opA_update"
  by (simp add: scenario_defs List_defs opA_update_def opA_join_def)

section \<open>The most recent operation\<close>

text \<open>
  Claim C7, as the code has it. In a pass whose merge succeeded and whose ID-filtered set
  is not empty, \<^verbatim>\<open>getLastOperation\<close> returns an operation and no error; the operation is
  a candidate whose \<open>Created\<close> is the maximum over the candidates; and when more than one
  candidate remains, it logs the message "Multiple operations found" with the list of all
  candidates at level Info, after the debug message, and still returns the most recent
  one. None of its log statements is a warning.
\<close>

theorem getLastOperation_most_recent:
  assumes L: "backendOperations_List amb newBackendOperations localEnv updateEnv joinEnv = (None, b)"
      and ok: "go_ok amb b operationID"
      and ne: "candidates b operationID \<noteq> {}"
  shows "\<exists>result op logged.
           getBackendOperations amb localEnv updateEnv joinEnv operationID = Inr result
         \<and> set result = candidates b operationID
         \<and> getLastOperation amb localEnv updateEnv joinEnv operationID = (Inr op, logged)
         \<and> op \<in> candidates b operationID
         \<and> (\<forall>c\<in>candidates b operationID. Created c \<le> Created op)
         \<and> (1 < card (candidates b operationID) \<longrightarrow>
              Info multiple_operations_message result \<in> set logged
            \<and> logged = [Debug ''Fetched backend operations.'' result,
                         Info multiple_operations_message result])
         \<and> filter is_warning logged = []"
proof -
  from resolved_list[OF L ok] obtain result where
    g: "getBackendOperations amb localEnv updateEnv joinEnv operationID = Inr result"
    and st: "set result = candidates b operationID"
    and so: "sorted_wrt (\<lambda>x y. Created y \<le> Created x) result" by blast
  from ne st obtain op rest where r: "result = op # rest" by (cases result) auto
  from so r have mx: "\<forall>c\<in>set result. Created c \<le> Created op" by auto
  have len: "1 < card (candidates b operationID) \<longrightarrow> length result \<noteq> 1"
  proof
    assume "1 < card (candidates b operationID)"
    then have "1 < card (set result)" by (simp add: st)
    also have "\<dots> \<le> length result" by (rule card_length)
    finally show "length result \<noteq> 1" by simp
  qed
  define logged where "logged = snd (getLastOperation amb localEnv updateEnv joinEnv operationID)"
  have lo: "getLastOperation amb localEnv updateEnv joinEnv operationID = (Inr op, logged)"
    unfolding logged_def by (simp add: getLastOperation_def g r Let_def)
  have li: "length result \<noteq> 1 \<longrightarrow>
              logged = [Debug ''Fetched backend operations.'' result,
                        Info multiple_operations_message result]"
    unfolding logged_def by (simp add: getLastOperation_def g r Let_def)
  have nw: "filter is_warning logged = []"
    unfolding logged_def by (simp add: getLastOperation_def g r Let_def)
  from mx st have mx': "\<forall>c\<in>candidates b operationID. Created c \<le> Created op" by simp
  from r st have mem: "op \<in> candidates b operationID" by auto
  from len li have li': "1 < card (candidates b operationID) \<longrightarrow>
              Info multiple_operations_message result \<in> set logged
            \<and> logged = [Debug ''Fetched backend operations.'' result,
                         Info multiple_operations_message result]" by simp
  from g st lo mem mx' li' nw show ?thesis by blast
qed

text \<open>In the scenario of the spec, \<open>B\<close> is returned and both candidates are listed.\<close>

theorem getLastOperation_most_recent_witness:
  "backendOperations_List (go [''A'', ''B'']) newBackendOperations (cluster_env [opA])
     (Some (env_of [opB])) None = (None, merged_AB)
   \<and> go_ok (go [''A'', ''B'']) merged_AB []
   \<and> candidates merged_AB [] = {opA, opB}
   \<and> 1 < card (candidates merged_AB [])
   \<and> getLastOperation (go [''A'', ''B'']) (cluster_env [opA]) (Some (env_of [opB])) None []
       = (Inr opB, [Debug ''Fetched backend operations.'' [opB, opA],
                    Info multiple_operations_message [opB, opA]])"
proof -
  have ne: "candidates merged_AB [] \<noteq> {}" by (simp add: candidates_AB)
  have d: "opA \<noteq> opB" by (simp add: opA_def opB_def)
  then have c: "1 < card (candidates merged_AB [])" by (simp add: candidates_AB)
  from getLastOperation_most_recent [OF List_AB go_ok_AB ne]
  obtain result op logged where
    g: "getBackendOperations (go [''A'', ''B'']) (cluster_env [opA]) (Some (env_of [opB])) None []
          = Inr result"
    and l: "getLastOperation (go [''A'', ''B'']) (cluster_env [opA]) (Some (env_of [opB])) None []
          = (Inr op, logged)"
    and m: "op \<in> candidates merged_AB []"
    and x: "\<forall>c\<in>candidates merged_AB []. Created c \<le> Created op"
    and lg: "1 < card (candidates merged_AB []) \<longrightarrow>
              Info multiple_operations_message result \<in> set logged
            \<and> logged = [Debug ''Fetched backend operations.'' result,
                         Info multiple_operations_message result]"
    by blast
  from g have r: "result = [opB, opA]" by (simp add: getBackendOperations_AB)
  from x have "Created opB \<le> Created op" by (simp add: candidates_AB)
  with m have o: "op = opB" by (auto simp: candidates_AB opA_def opB_def)
  from lg c r have "logged = [Debug ''Fetched backend operations.'' [opB, opA],
                         Info multiple_operations_message [opB, opA]]" by simp
  with l o List_AB go_ok_AB candidates_AB c show ?thesis by simp
qed

text \<open>
  The claim as stated fails: in the scenario of the spec two candidates remain, and
  \<^verbatim>\<open>getLastOperation\<close> logs the list of candidates with \<^verbatim>\<open>log.Infof\<close>; its log holds
  a debug entry and that entry, and no warning.
\<close>

theorem multiple_operations_logged_at_Info:
  "backendOperations_List (go [''A'', ''B'']) newBackendOperations (cluster_env [opA])
     (Some (env_of [opB])) None = (None, merged_AB)
   \<and> candidates merged_AB [] = {opA, opB} \<and> opA \<noteq> opB
   \<and> getLastOperation (go [''A'', ''B'']) (cluster_env [opA]) (Some (env_of [opB])) None [] =
       (Inr opB, [Debug ''Fetched backend operations.'' [opB, opA],
                  Info multiple_operations_message [opB, opA]])
   \<and> filter is_warning
       (snd (getLastOperation (go [''A'', ''B'']) (cluster_env [opA]) (Some (env_of [opB])) None []))
       = []"
proof -
  have d: "opA \<noteq> opB" by (simp add: opA_def opB_def)
  have g: "getLastOperation (go [''A'', ''B'']) (cluster_env [opA]) (Some (env_of [opB])) None [] =
       (Inr opB, [Debug ''Fetched backend operations.'' [opB, opA],
                  Info multiple_operations_message [opB, opA]])"
    by (simp add: getLastOperation_def getBackendOperations_AB)
  from g have "filter is_warning
       (snd (getLastOperation (go [''A'', ''B'']) (cluster_env [opA]) (Some (env_of [opB])) None []))
       = []" by simp
  with List_AB candidates_AB d g show ?thesis by simp
qed

section \<open>The empty filtered set\<close>

text \<open>
  Claim C8, as the code has it. When the merge succeeds and no operation of the merged
  set passes the ID filter, both \<^verbatim>\<open>getLastOperation\<close> and \<^verbatim>\<open>getActiveOperation\<close> fail
  with NotFound; the message is "no operation with ID X found" for a non-empty filter X
  and "no operation found" for the empty filter. When the merge itself fails, both return
  the error of the merge, wrapped, which is NotFound only if that error is.
\<close>

theorem not_found_on_empty_filtered_set:
  "(\<forall>b. backendOperations_List amb newBackendOperations localEnv updateEnv joinEnv = (None, b)
        \<and> go_ok amb b operationID \<and> candidates b operationID = {} \<longrightarrow>
          (operationID \<noteq> [] \<longrightarrow>
             getActiveOperation amb localEnv updateEnv joinEnv operationID =
               Inl (NotFound ''no operation with ID %v found'' [ArgString operationID])
           \<and> fst (getLastOperation amb localEnv updateEnv joinEnv operationID) =
               Inl (NotFound ''no operation with ID %v found'' [ArgString operationID]))
        \<and> (operationID = [] \<longrightarrow>
             getActiveOperation amb localEnv updateEnv joinEnv operationID =
               Inl (NotFound ''no operation found'' [])
           \<and> fst (getLastOperation amb localEnv updateEnv joinEnv operationID) =
               Inl (NotFound ''no operation found'' []))
        \<and> (\<exists>err. getActiveOperation amb localEnv updateEnv joinEnv operationID = Inl err
                 \<and> IsNotFound err)
        \<and> (\<exists>err. fst (getLastOperation amb localEnv updateEnv joinEnv operationID) = Inl err
                 \<and> IsNotFound err))
   \<and> (\<forall>err b. backendOperations_List amb newBackendOperations localEnv updateEnv joinEnv
                  = (Some err, b) \<longrightarrow>
          getActiveOperation amb localEnv updateEnv joinEnv operationID = Inl (Wrap (Wrap err))
        \<and> fst (getLastOperation amb localEnv updateEnv joinEnv operationID) =
            Inl (Wrap (Wrap err))
        \<and> IsNotFound (Wrap (Wrap err)) = IsNotFound err)"
proof (intro conjI allI impI)
  fix b
  assume h: "backendOperations_List amb newBackendOperations localEnv updateEnv joinEnv = (None, b)
        \<and> go_ok amb b operationID \<and> candidates b operationID = {}"
  then have L: "backendOperations_List amb newBackendOperations localEnv updateEnv joinEnv = (None, b)"
    and ok: "go_ok amb b operationID" and em: "candidates b operationID = {}" by simp_all
  note A = empty_filtered_set_NotFound(1) [OF L ok em]
  note B = empty_filtered_set_NotFound(2) [OF L ok em]
  {
    assume "operationID \<noteq> []"
    then show "getActiveOperation amb localEnv updateEnv joinEnv operationID =
               Inl (NotFound ''no operation with ID %v found'' [ArgString operationID])"
      and "fst (getLastOperation amb localEnv updateEnv joinEnv operationID) =
               Inl (NotFound ''no operation with ID %v found'' [ArgString operationID])"
      using A B by simp_all
  }
  {
    assume "operationID = []"
    then show "getActiveOperation amb localEnv updateEnv joinEnv operationID =
               Inl (NotFound ''no operation found'' [])"
      and "fst (getLastOperation amb localEnv updateEnv joinEnv operationID) =
               Inl (NotFound ''no operation found'' [])"
      using A B by simp_all
  }
  show "\<exists>err. getActiveOperation amb localEnv updateEnv joinEnv operationID = Inl err
                 \<and> IsNotFound err"
    by (simp add: A)
  show "\<exists>err. fst (getLastOperation amb localEnv updateEnv joinEnv operationID) = Inl err
                 \<and> IsNotFound err"
    by (simp add: B)
next
  fix err b
  assume L: "backendOperations_List amb newBackendOperations localEnv updateEnv joinEnv
                  = (Some err, b)"
  show "getActiveOperation amb localEnv updateEnv joinEnv operationID = Inl (Wrap (Wrap err))"
    by (rule failed_merge_propagates(2) [OF L])
  show "fst (getLastOperation amb localEnv updateEnv joinEnv operationID) = Inl (Wrap (Wrap err))"
    by (rule failed_merge_propagates(3) [OF L])
  show "IsNotFound (Wrap (Wrap err)) = IsNotFound err" by simp
qed

text \<open>
  In the scenario of the spec no operation has the ID \<open>C\<close>; and with the install
  operation \<open>I\<close> in the cluster and no wizard at all, the merge fails.
\<close>

theorem not_found_on_empty_filtered_set_witness:
  "backendOperations_List (go [''A'', ''B'']) newBackendOperations (cluster_env [opA])
     (Some (env_of [opB])) None = (None, merged_AB)
   \<and> go_ok (go [''A'', ''B'']) merged_AB ''C''
   \<and> candidates merged_AB ''C'' = {}
   \<and> getActiveOperation (go [''A'', ''B'']) (cluster_env [opA]) (Some (env_of [opB])) None ''C''
       = Inl (NotFound ''no operation with ID %v found'' [ArgString ''C''])
   \<and> fst (getLastOperation (go [''A'', ''B'']) (cluster_env [opA]) (Some (env_of [opB])) None ''C'')
       = Inl (NotFound ''no operation with ID %v found'' [ArgString ''C''])
   \<and> fst (backendOperations_List (go []) newBackendOperations (cluster_env [opI]) None None)
       = Some wizard_failure
   \<and> getActiveOperation (go []) (cluster_env [opI]) None None ''C''
       = Inl (Wrap (Wrap wizard_failure))
   \<and> fst (getLastOperation (go []) (cluster_env [opI]) None None ''C'')
       = Inl (Wrap (Wrap wizard_failure))"
proof -
  from not_found_on_empty_filtered_set
    [of "go [''A'', ''B'']" "cluster_env [opA]" "Some (env_of [opB])" None "''C''"]
    List_AB go_ok_AB_C candidates_AB_C
  have 1: "getActiveOperation (go [''A'', ''B'']) (cluster_env [opA]) (Some (env_of [opB])) None ''C''
       = Inl (NotFound ''no operation with ID %v found'' [ArgString ''C''])
   \<and> fst (getLastOperation (go [''A'', ''B'']) (cluster_env [opA]) (Some (env_of [opB])) None ''C'')
       = Inl (NotFound ''no operation with ID %v found'' [ArgString ''C''])"
    by simp
  from not_found_on_empty_filtered_set [of "go []" "cluster_env [opI]" None None "''C''"]
    List_fails_I [of "[]"]
  have 2: "getActiveOperation (go []) (cluster_env [opI]) None None ''C''
       = Inl (Wrap (Wrap wizard_failure))
   \<and> fst (getLastOperation (go []) (cluster_env [opI]) None None ''C'')
       = Inl (Wrap (Wrap wizard_failure))"
    by blast
  from 1 2 List_AB go_ok_AB_C candidates_AB_C List_fails_I [of "[]"] show ?thesis by simp
qed

text \<open>
  The claim as stated fails: with an empty cluster backend, no remote wizard and no local
  wizard environment, nothing is merged, and both queries return the failure to read the
  local wizard environment, which is not a NotFound error.
\<close>

theorem merge_failure_is_not_NotFound:
  "fst (backendOperations_List (go []) newBackendOperations (cluster_env []) None None)
     = Some wizard_failure
   \<and> operations (snd (backendOperations_List (go []) newBackendOperations (cluster_env [])
                         None None)) = Map.empty
   \<and> getBackendOperations (go []) (cluster_env []) None None [] = Inl (Wrap wizard_failure)
   \<and> getActiveOperation (go []) (cluster_env []) None None [] =
       Inl (Wrap (Wrap wizard_failure))
   \<and> fst (getLastOperation (go []) (cluster_env []) None None []) =
       Inl (Wrap (Wrap wizard_failure))
   \<and> \<not> IsNotFound (Wrap (Wrap wizard_failure))
   \<and> wizard_failure =
       WrapMessage (OtherError ''connection refused'') ''failed to read local wizard environment''"
  using wizard_failure_not_NotFound
  by (simp add: List_fails_nothing failed_merge_propagates [OF List_fails_nothing]
      wizard_failure_def unreachable_def)

section \<open>Determinism\<close>

text \<open>
  Claim C9, as the code has it. Two runs on the same source responses, whatever order
  their \<^verbatim>\<open>range\<close> visits the map in and however their \<^verbatim>\<open>sort.Slice\<close> sorts, end the merge
  with the same result; and when one candidate is created strictly later than every
  other, \<^verbatim>\<open>getLastOperation\<close> returns it in both runs.
\<close>

theorem resolution_deterministic_up_to_ties:
  assumes same: "NewRemoteEnvironment amb1 = NewRemoteEnvironment amb2"
  shows "backendOperations_List amb1 newBackendOperations localEnv updateEnv joinEnv =
         backendOperations_List amb2 newBackendOperations localEnv updateEnv joinEnv
       \<and> (\<forall>b m. backendOperations_List amb1 newBackendOperations localEnv updateEnv joinEnv
                   = (None, b)
                \<and> go_ok amb1 b operationID \<and> go_ok amb2 b operationID
                \<and> m \<in> candidates b operationID
                \<and> (\<forall>c\<in>candidates b operationID. c \<noteq> m \<longrightarrow> Created c < Created m)
              \<longrightarrow> fst (getLastOperation amb1 localEnv updateEnv joinEnv operationID) = Inr m
                \<and> fst (getLastOperation amb2 localEnv updateEnv joinEnv operationID) = Inr m)"
proof -
  have eq: "backendOperations_List amb1 newBackendOperations localEnv updateEnv joinEnv =
            backendOperations_List amb2 newBackendOperations localEnv updateEnv joinEnv"
    using same by (rule List_same_sources)
  have one: "fst (getLastOperation amb localEnv updateEnv joinEnv operationID) = Inr m"
    if L: "backendOperations_List amb newBackendOperations localEnv updateEnv joinEnv = (None, b)"
      and ok: "go_ok amb b operationID"
      and m: "m \<in> candidates b operationID"
      and strict: "\<forall>c\<in>candidates b operationID. c \<noteq> m \<longrightarrow> Created c < Created m"
    for amb b m
  proof -
    from m have ne: "candidates b operationID \<noteq> {}" by auto
    from last_operation_maximal [OF L ok ne] obtain op where
      r: "fst (getLastOperation amb localEnv updateEnv joinEnv operationID) = Inr op"
      and mem: "op \<in> candidates b operationID"
      and mx: "\<forall>c\<in>candidates b operationID. Created c \<le> Created op" by blast
    from mx m have "Created m \<le> Created op" by simp
    moreover from strict mem have "op \<noteq> m \<longrightarrow> Created op < Created m" by simp
    ultimately have "op = m" by auto
    with r show ?thesis by simp
  qed
  have two: "fst (getLastOperation amb1 localEnv updateEnv joinEnv operationID) = Inr m
           \<and> fst (getLastOperation amb2 localEnv updateEnv joinEnv operationID) = Inr m"
    if L: "backendOperations_List amb1 newBackendOperations localEnv updateEnv joinEnv = (None, b)"
      and ok1: "go_ok amb1 b operationID" and ok2: "go_ok amb2 b operationID"
      and m: "m \<in> candidates b operationID"
      and strict: "\<forall>c\<in>candidates b operationID. c \<noteq> m \<longrightarrow> Created c < Created m"
    for b m
  proof -
    from L eq have L2: "backendOperations_List amb2 newBackendOperations localEnv updateEnv joinEnv
      = (None, b)" by simp
    from one [OF L ok1 m strict] one [OF L2 ok2 m strict] show ?thesis by simp
  qed
  from eq two show ?thesis by blast
qed

text \<open>In the scenario of the spec both visiting orders return \<open>B\<close>.\<close>

theorem resolution_deterministic_up_to_ties_witness:
  "NewRemoteEnvironment (go [''A'', ''B'']) = NewRemoteEnvironment (go [''B'', ''A''])
   \<and> go_ok (go [''A'', ''B'']) merged_AB [] \<and> go_ok (go [''B'', ''A'']) merged_AB []
   \<and> fst (getLastOperation (go [''A'', ''B'']) (cluster_env [opA]) (Some (env_of [opB])) None [])
       = Inr opB
   \<and> fst (getLastOperation (go [''B'', ''A'']) (cluster_env [opA]) (Some (env_of [opB])) None [])
       = Inr opB"
proof -
  have same: "NewRemoteEnvironment (go [''A'', ''B'']) = NewRemoteEnvironment (go [''B'', ''A''])"
    by (simp add: go_def)
  have m: "opB \<in> candidates merged_AB []" by (simp add: candidates_AB)
  have strict: "\<forall>c\<in>candidates merged_AB []. c \<noteq> opB \<longrightarrow> Created c < Created opB"
    by (simp add: candidates_AB) (simp add: opA_def opB_def)
  from resolution_deterministic_up_to_ties [OF same, of "cluster_env [opA]" "Some (env_of [opB])"
      None "[]"] List_AB go_ok_AB go_ok_BA m strict
  have "fst (getLastOperation (go [''A'', ''B'']) (cluster_env [opA]) (Some (env_of [opB])) None [])
       = Inr opB
   \<and> fst (getLastOperation (go [''B'', ''A'']) (cluster_env [opA]) (Some (env_of [opB])) None [])
       = Inr opB"
    by blast
  with same go_ok_AB go_ok_BA show ?thesis by simp
qed

text \<open>
  The claim as stated fails on a tie: with \<open>A\<close> and \<open>B\<close> created at the same instant, the
  run that visits \<open>A\<close> first returns \<open>A\<close> and the run that visits \<open>B\<close> first returns \<open>B\<close>.
\<close>

theorem tie_broken_by_range_order:
  "NewRemoteEnvironment (go [''A'', ''B'']) = NewRemoteEnvironment (go [''B'', ''A''])
   \<and> backendOperations_List (go [''A'', ''B'']) newBackendOperations (cluster_env [opA])
       (Some (env_of [opB_tie])) None = (None, merged_tie)
   \<and> backendOperations_List (go [''B'', ''A'']) newBackendOperations (cluster_env [opA])
       (Some (env_of [opB_tie])) None = (None, merged_tie)
   \<and> go_ok (go [''A'', ''B'']) merged_tie [] \<and> go_ok (go [''B'', ''A'']) merged_tie []
   \<and> Created opA = Created opB_tie
   \<and> fst (getLastOperation (go [''A'', ''B'']) (cluster_env [opA]) (Some (env_of [opB_tie])) None [])
       = Inr opA
   \<and> fst (getLastOperation (go [''B'', ''A'']) (cluster_env [opA]) (Some (env_of [opB_tie])) None [])
       = Inr opB_tie
   \<and> opA \<noteq> opB_tie"
proof -
  have "NewRemoteEnvironment (go [''A'', ''B'']) = NewRemoteEnvironment (go [''B'', ''A''])"
    by (simp add: go_def)
  moreover have "Created opA = Created opB_tie" "opA \<noteq> opB_tie"
    by (simp_all add: opA_def opB_tie_def)
  ultimately show ?thesis
    using List_tie go_ok_tie_AB go_ok_tie_BA getLastOperation_tie_AB getLastOperation_tie_BA
    by simp
qed

section \<open>No dispatch on completed operations\<close>

text \<open>
  Claim C10, as the code has it. \<^verbatim>\<open>ExecutePhase\<close>, \<^verbatim>\<open>RollbackPhase\<close> and
  \<^verbatim>\<open>completeOperationPlan\<close> resolve their target through the active query. In a pass
  whose merge succeeded, if every operation matching the ID filter is completed (or none
  matches), the active query fails with a NotFound error, and each of the three returns
  that error wrapped, still NotFound, and leaves the world as it was, whatever the
  handlers are: none of them has run. When the merge itself fails, each returns the error
  of the merge, wrapped, which is NotFound only if that error is, and again no handler has
  run. The operation a handler is called with is never completed.
\<close>

theorem no_dispatch_on_completed_operations:
  "(\<forall>b. backendOperations_List amb newBackendOperations localEnv updateEnv joinEnv = (None, b)
        \<and> go_ok amb b (OperationID params)
        \<and> (\<forall>c\<in>candidates b (OperationID params). IsCompleted c) \<longrightarrow>
          (\<exists>err. getActiveOperation amb localEnv updateEnv joinEnv (OperationID params) = Inl err
                \<and> IsNotFound err
                \<and> ExecutePhase X amb localEnv updateEnv joinEnv params w = (Some (Wrap err), w)
                \<and> RollbackPhase X amb localEnv updateEnv joinEnv params w = (Some (Wrap err), w)
                \<and> completeOperationPlan X amb localEnv updateEnv joinEnv (OperationID params) w =
                    (Some (Wrap err), w)
                \<and> IsNotFound (Wrap err)))
   \<and> (\<forall>err b. backendOperations_List amb newBackendOperations localEnv updateEnv joinEnv
                  = (Some err, b) \<longrightarrow>
          ExecutePhase X amb localEnv updateEnv joinEnv params w =
            (Some (Wrap (Wrap (Wrap err))), w)
        \<and> RollbackPhase X amb localEnv updateEnv joinEnv params w =
            (Some (Wrap (Wrap (Wrap err))), w)
        \<and> completeOperationPlan X amb localEnv updateEnv joinEnv (OperationID params) w =
            (Some (Wrap (Wrap (Wrap err))), w)
        \<and> IsNotFound (Wrap (Wrap (Wrap err))) = IsNotFound err)
   \<and> (\<forall>op. getActiveOperation amb localEnv updateEnv joinEnv (OperationID params) = Inr op
          \<longrightarrow> \<not> IsCompleted op)"
proof -
  have 1: "\<forall>b. backendOperations_List amb newBackendOperations localEnv updateEnv joinEnv = (None, b)
        \<and> go_ok amb b (OperationID params)
        \<and> (\<forall>c\<in>candidates b (OperationID params). IsCompleted c) \<longrightarrow>
          (\<exists>err. getActiveOperation amb localEnv updateEnv joinEnv (OperationID params) = Inl err
                \<and> IsNotFound err
                \<and> ExecutePhase X amb localEnv updateEnv joinEnv params w = (Some (Wrap err), w)
                \<and> RollbackPhase X amb localEnv updateEnv joinEnv params w = (Some (Wrap err), w)
                \<and> completeOperationPlan X amb localEnv updateEnv joinEnv (OperationID params) w =
                    (Some (Wrap err), w)
                \<and> IsNotFound (Wrap err))"
  proof (intro allI impI)
    fix b
    assume h: "backendOperations_List amb newBackendOperations localEnv updateEnv joinEnv = (None, b)
        \<and> go_ok amb b (OperationID params)
        \<and> (\<forall>c\<in>candidates b (OperationID params). IsCompleted c)"
    then have L: "backendOperations_List amb newBackendOperations localEnv updateEnv joinEnv = (None, b)"
      and ok: "go_ok amb b (OperationID params)"
      and c: "\<forall>c\<in>candidates b (OperationID params). IsCompleted c" by simp_all
    from completed_candidates_NotFound [OF L ok c] obtain err where
      a: "getActiveOperation amb localEnv updateEnv joinEnv (OperationID params) = Inl err"
      and n: "IsNotFound err" by blast
    from n have n': "IsNotFound (Wrap err)" by simp
    from a n n' no_dispatch_on_error [OF a, of X w]
    show "\<exists>err. getActiveOperation amb localEnv updateEnv joinEnv (OperationID params) = Inl err
                \<and> IsNotFound err
                \<and> ExecutePhase X amb localEnv updateEnv joinEnv params w = (Some (Wrap err), w)
                \<and> RollbackPhase X amb localEnv updateEnv joinEnv params w = (Some (Wrap err), w)
                \<and> completeOperationPlan X amb localEnv updateEnv joinEnv (OperationID params) w =
                    (Some (Wrap err), w)
                \<and> IsNotFound (Wrap err)"
      by blast
  qed
  have 2: "\<forall>err b. backendOperations_List amb newBackendOperations localEnv updateEnv joinEnv
                  = (Some err, b) \<longrightarrow>
          ExecutePhase X amb localEnv updateEnv joinEnv params w =
            (Some (Wrap (Wrap (Wrap err))), w)
        \<and> RollbackPhase X amb localEnv updateEnv joinEnv params w =
            (Some (Wrap (Wrap (Wrap err))), w)
        \<and> completeOperationPlan X amb localEnv updateEnv joinEnv (OperationID params) w =
            (Some (Wrap (Wrap (Wrap err))), w)
        \<and> IsNotFound (Wrap (Wrap (Wrap err))) = IsNotFound err"
  proof (intro allI impI)
    fix err b
    assume L: "backendOperations_List amb newBackendOperations localEnv updateEnv joinEnv
                  = (Some err, b)"
    note a = failed_merge_propagates(2) [OF L, of "OperationID params"]
    from no_dispatch_on_error [OF a, of X w]
    show "ExecutePhase X amb localEnv updateEnv joinEnv params w =
            (Some (Wrap (Wrap (Wrap err))), w)
        \<and> RollbackPhase X amb localEnv updateEnv joinEnv params w =
            (Some (Wrap (Wrap (Wrap err))), w)
        \<and> completeOperationPlan X amb localEnv updateEnv joinEnv (OperationID params) w =
            (Some (Wrap (Wrap (Wrap err))), w)
        \<and> IsNotFound (Wrap (Wrap (Wrap err))) = IsNotFound err"
      by simp
  qed
  have 3: "\<forall>op. getActiveOperation amb localEnv updateEnv joinEnv (OperationID params) = Inr op
          \<longrightarrow> \<not> IsCompleted op"
    using active_operation_not_completed by blast
  from 1 2 3 show ?thesis by (intro conjI)
qed

text \<open>
  With the completed update \<open>A\<close> alone, the most recent operation is \<open>A\<close>, and executing a
  phase fails without calling a handler; with nothing in the cluster and no wizard, the
  merge fails and so does a rollback.
\<close>

theorem no_dispatch_on_completed_operations_witness:
  "backendOperations_List (go [''A'']) newBackendOperations (cluster_env [opA]) None None
     = (None, merged_A)
   \<and> go_ok (go [''A'']) merged_A (OperationID (phase ''/init'' []))
   \<and> candidates merged_A (OperationID (phase ''/init'' [])) = {opA} \<and> IsCompleted opA
   \<and> fst (getLastOperation (go [''A'']) (cluster_env [opA]) None None []) = Inr opA
   \<and> ExecutePhase spies (go [''A'']) (cluster_env [opA]) None None (phase ''/init'' []) [] =
       (Some (Wrap (Wrap (NotFound ''no active operations found'' []))), [])
   \<and> fst (backendOperations_List (go []) newBackendOperations (cluster_env []) None None)
       = Some wizard_failure
   \<and> RollbackPhase spies (go []) (cluster_env []) None None (phase ''/init'' []) [] =
       (Some (Wrap (Wrap (Wrap wizard_failure))), [])"
proof -
  have i: "OperationID (phase ''/init'' []) = []" by (simp add: phase_def)
  have ok: "go_ok (go [''A'']) merged_A (OperationID (phase ''/init'' []))"
    by (simp add: i go_ok_A)
  have c: "candidates merged_A (OperationID (phase ''/init'' [])) = {opA}"
    by (simp add: i candidates_A)
  have d: "IsCompleted opA" by (simp add: IsCompleted_def opA_def)
  from c d have all: "\<forall>c\<in>candidates merged_A (OperationID (phase ''/init'' [])). IsCompleted c"
    by simp
  have a: "getActiveOperation (go [''A'']) (cluster_env [opA]) None None
             (OperationID (phase ''/init'' [])) =
           Inl (Wrap (NotFound ''no active operations found'' []))"
    by (simp add: i getActiveOperation_def getBackendOperations_def List_A)
       (simp add: merged_A_def go_def range_values_def List.map_filter_simps insertionSort_def
          IsCompleted_def opA_def)
  from no_dispatch_on_completed_operations
    [of "go [''A'']" "cluster_env [opA]" None None "phase ''/init'' []" spies "[]"]
    List_A [of "[''A'']"] ok all
  have "\<exists>err. getActiveOperation (go [''A'']) (cluster_env [opA]) None None
                 (OperationID (phase ''/init'' [])) = Inl err
             \<and> ExecutePhase spies (go [''A'']) (cluster_env [opA]) None None (phase ''/init'' []) []
                 = (Some (Wrap err), [])"
    by blast
  with a have 1: "ExecutePhase spies (go [''A'']) (cluster_env [opA]) None None (phase ''/init'' []) [] =
       (Some (Wrap (Wrap (NotFound ''no active operations found'' []))), [])"
    by auto
  from no_dispatch_on_completed_operations
    [of "go []" "cluster_env []" None None "phase ''/init'' []" spies "[]"]
    List_fails_nothing [of "[]"]
  have 2: "RollbackPhase spies (go []) (cluster_env []) None None (phase ''/init'' []) [] =
       (Some (Wrap (Wrap (Wrap wizard_failure))), [])"
    by blast
  from 1 2 List_A ok c d last_A List_fails_nothing [of "[]"] show ?thesis by simp
qed

text \<open>
  The claim as stated fails: with the completed install operation \<open>I\<close> in the cluster
  backend, no remote wizard and no local wizard environment, every operation is
  completed, and the three entry points fail with the failure to read the local wizard
  environment, which is not a NotFound error. No handler runs.
\<close>

theorem completed_install_with_failed_merge:
  "fst (backendOperations_List (go [''I'']) newBackendOperations (cluster_env [opI]) None None)
     = Some wizard_failure
   \<and> operations (snd (backendOperations_List (go [''I'']) newBackendOperations
                         (cluster_env [opI]) None None)) = [''I'' \<mapsto> opI]
   \<and> IsCompleted opI
   \<and> ExecutePhase spies (go [''I'']) (cluster_env [opI]) None None (phase ''/init'' []) [] =
       (Some (Wrap (Wrap (Wrap wizard_failure))), [])
   \<and> RollbackPhase spies (go [''I'']) (cluster_env [opI]) None None (phase ''/init'' []) [] =
       (Some (Wrap (Wrap (Wrap wizard_failure))), [])
   \<and> completeOperationPlan spies (go [''I'']) (cluster_env [opI]) None None [] [] =
       (Some (Wrap (Wrap (Wrap wizard_failure))), [])
   \<and> \<not> IsNotFound (Wrap (Wrap (Wrap wizard_failure)))
   \<and> wizard_failure =
       WrapMessage (OtherError ''connection refused'') ''failed to read local wizard environment''"
proof -
  have i: "OperationID (phase ''/init'' []) = []" by (simp add: phase_def)
  have a: "getActiveOperation (go [''I'']) (cluster_env [opI]) None None
             (OperationID (phase ''/init'' [])) = Inl (Wrap (Wrap wizard_failure))"
    by (rule failed_merge_propagates(2) [OF List_fails_I])
  have d: "IsCompleted opI" by (simp add: IsCompleted_def opI_def)
  have n: "\<not> IsNotFound (Wrap (Wrap (Wrap wizard_failure)))"
    using wizard_failure_not_NotFound by simp
  have w: "wizard_failure =
       WrapMessage (OtherError ''connection refused'') ''failed to read local wizard environment''"
    by (simp add: wizard_failure_def unreachable_def)
  from no_dispatch_on_error [OF a, of spies "[]"] i d n w show ?thesis
    by (simp add: List_fails_I)
qed


end
